theory Spec2Isabelle
  imports Main "HOL-Library.AList"
begin

section \<open>Python values, exceptions and results\<close>

text \<open>
  The two modules are glue code around two SDKs. Every call that leaves the module (the
  speaker SDK, the name resolver, the constructors of classes that live in other files)
  either returns or raises; its outcome is a parameter of the model (the record \<open>env\<close>
  below), so that every theorem holds for every behaviour of the network.
  A result is a sum: \<open>Raises e\<close> for an exception that leaves the function,
  \<open>Returns v\<close> for a normal return.
\<close>

datatype exc =
    OSError | SoCoException | KeyError | ValueError | AttributeError | AwesomeVersionCompare
  | OtherException

type_synonym 'a result = "exc + 'a"

abbreviation Raises :: "exc \<Rightarrow> 'a result" where
  "Raises \<equiv> Inl"

abbreviation Returns :: "'a \<Rightarrow> 'a result" where
  "Returns \<equiv> Inr"

text \<open>The clause \<^verbatim>\<open>except (OSError, SoCoException)\<close> of both handlers.\<close>

definition sdk_failure :: "exc \<Rightarrow> bool" where
  "sdk_failure ex = (ex = OSError \<or> ex = SoCoException)"

section \<open>The Sonos discovery manager: data\<close>

datatype SoCoCreationSource = CONFIGURED | DISCOVERED | REBOOTED

text \<open>
  A device handle of the SDK. \<^verbatim>\<open>pysonos.SoCo(ip_address)\<close> yields the handle of that
  address; the only attribute read without a network call is \<open>ip_address\<close>.
\<close>

datatype soco = SoCo (ip_address: string)

type_synonym speaker_info = "(string \<times> string) list"

text \<open>
  \<^verbatim>\<open>SonosSpeaker(hass, soco, speaker_info)\<close>: the class lives in another file; the
  manager reads \<^verbatim>\<open>speaker.soco\<close> only.
\<close>

record SonosSpeaker =
  soco :: soco
  info :: speaker_info

datatype coordinator_class = SonosAlarms | SonosFavorites

datatype coordinator = Coordinator coordinator_class string

text \<open>
  \<^verbatim>\<open>class SonosData\<close>. \<open>discovered\<close> is an OrderedDict: an association list in
  insertion order, written with \<open>AList.update\<close> (replace in place, else append).
  \<open>hosts_heartbeat\<close> is \<open>True\<close> when a cancel handle is stored, \<open>False\<close> for
  \<^verbatim>\<open>None\<close>.
\<close>

record SonosData =
  discovered :: "(string \<times> SonosSpeaker) list"
  favorites :: "string \<rightharpoonup> coordinator"
  alarms :: "string \<rightharpoonup> coordinator"
  hosts_heartbeat :: bool
  discovery_known :: "string set"
  boot_counts :: "string \<rightharpoonup> int"

datatype signal = SONOS_SEEN | SONOS_REBOOTED

datatype log_message =
    FailedToConnect SoCoCreationSource string exc
  | FailedToAdd soco
  | AddingNewSpeaker speaker_info
  | IgnoringDevice
  | NewDiscovery string string

text \<open>
  What the manager does to the world outside \<open>SonosData\<close>, in order: the two
  constructor calls that make a device handle and a device record, log records, dispatcher
  signals \<^verbatim>\<open>f"{SIGNAL}-{uid}"\<close> with their optional argument, the task created for
  \<^verbatim>\<open>_async_create_discovered_player(uid, discovered_ip, boot_seqnum)\<close>, and the
  timer of the manual heartbeat. Dispatcher handlers are scheduled on the event loop and
  run after the sending function has returned; they belong to other files.
\<close>

datatype effect =
    NewSoCo string
  | NewSonosSpeaker soco
  | LogWarning log_message
  | LogDebug log_message
  | DispatcherSend signal string "soco option"
  | CreateTask string string "int option"
  | CallLater
  | CancelTimer

record world =
  data :: SonosData
  out :: "effect list"

text \<open>
  The outcomes of the calls that leave the module. \<open>int_of_str\<close> is the builtin
  \<^verbatim>\<open>int(s)\<close> on a string (\<open>Raises ValueError\<close> where it does not parse).
\<close>

record env =
  pysonos_SoCo :: "string \<Rightarrow> unit result"
  soco_uid :: "soco \<Rightarrow> string result"
  soco_volume :: "soco \<Rightarrow> int result"
  soco_is_visible :: "soco \<Rightarrow> bool result"
  soco_household_id :: "soco \<Rightarrow> string result"
  get_speaker_info :: "soco \<Rightarrow> speaker_info result"
  new_SonosSpeaker :: "soco \<Rightarrow> speaker_info \<Rightarrow> unit result"
  coordinator_setup :: "coordinator_class \<Rightarrow> string \<Rightarrow> soco \<Rightarrow> unit result"
  speaker_setup :: "SonosSpeaker \<Rightarrow> unit result"
  gethostbyname :: "string \<Rightarrow> string result"
  int_of_str :: "string \<Rightarrow> int result"

definition emit :: "effect \<Rightarrow> world \<Rightarrow> world" where
  "emit e w = w\<lparr>out := out w @ [e]\<rparr>"

definition DISCOVERY_IGNORED_MODELS :: "string list" where
  "DISCOVERY_IGNORED_MODELS = [''Sonos Boost'']"

section \<open>The Sonos discovery manager: operations\<close>

text \<open>The body of the \<^verbatim>\<open>try\<close> of \<^verbatim>\<open>_create_soco\<close>: three SDK calls.\<close>

definition create_soco_try :: "env \<Rightarrow> string \<Rightarrow> soco result" where
  "create_soco_try env ip =
     (case pysonos_SoCo env ip of
        Raises ex \<Rightarrow> Raises ex
      | Returns _ \<Rightarrow>
          (case soco_uid env (SoCo ip) of
             Raises ex \<Rightarrow> Raises ex
           | Returns _ \<Rightarrow>
               (case soco_volume env (SoCo ip) of
                  Raises ex \<Rightarrow> Raises ex
                | Returns _ \<Rightarrow> Returns (SoCo ip))))"

text \<open>\<^verbatim>\<open>_create_soco(ip_address, source)\<close>.\<close>

definition create_soco ::
  "env \<Rightarrow> string \<Rightarrow> SoCoCreationSource \<Rightarrow> world \<Rightarrow> soco option result \<times> world" where
  "create_soco env ip source w =
     (case create_soco_try env ip of
        Returns s \<Rightarrow> (Returns (Some s), emit (NewSoCo ip) w)
      | Raises ex \<Rightarrow>
          if sdk_failure ex
          then (Returns None,
                emit (LogWarning (FailedToConnect source ip ex)) (emit (NewSoCo ip) w))
          else (Raises ex, emit (NewSoCo ip) w))"

definition coord_dict :: "coordinator_class \<Rightarrow> SonosData \<Rightarrow> (string \<rightharpoonup> coordinator)" where
  "coord_dict cls d = (case cls of SonosAlarms \<Rightarrow> alarms d | SonosFavorites \<Rightarrow> favorites d)"

definition coord_dict_store :: "coordinator_class \<Rightarrow> string \<Rightarrow> SonosData \<Rightarrow> SonosData" where
  "coord_dict_store cls hid d =
     (case cls of
        SonosAlarms \<Rightarrow> d\<lparr>alarms := (alarms d)(hid \<mapsto> Coordinator cls hid)\<rparr>
      | SonosFavorites \<Rightarrow> d\<lparr>favorites := (favorites d)(hid \<mapsto> Coordinator cls hid)\<rparr>)"

text \<open>One round of the loop over the two coordinator classes in \<^verbatim>\<open>_discovered_player\<close>.\<close>

definition setup_coordinator ::
  "env \<Rightarrow> coordinator_class \<Rightarrow> soco \<Rightarrow> world \<Rightarrow> unit result \<times> world" where
  "setup_coordinator env cls s w =
     (case soco_household_id env s of
        Raises ex \<Rightarrow> (Raises ex, w)
      | Returns hid \<Rightarrow>
          if hid \<in> dom (coord_dict cls (data w)) then (Returns (), w)
          else (case coordinator_setup env cls hid s of
                  Raises ex \<Rightarrow> (Raises ex, w)
                | Returns _ \<Rightarrow> (Returns (), w\<lparr>data := coord_dict_store cls hid (data w)\<rparr>)))"

text \<open>
  The body of the \<^verbatim>\<open>try\<close> of \<^verbatim>\<open>_discovered_player\<close>. The state it returns
  with an exception is the state reached when the exception was raised.
\<close>

definition discovered_player_try :: "env \<Rightarrow> soco \<Rightarrow> world \<Rightarrow> unit result \<times> world" where
  "discovered_player_try env s w =
     (case get_speaker_info env s of
        Raises ex \<Rightarrow> (Raises ex, w)
      | Returns i \<Rightarrow>
          let w1 = emit (NewSonosSpeaker s) (emit (LogDebug (AddingNewSpeaker i)) w) in
          (case new_SonosSpeaker env s i of
             Raises ex \<Rightarrow> (Raises ex, w1)
           | Returns _ \<Rightarrow>
               let speaker = \<lparr>soco = s, info = i\<rparr> in
               (case soco_uid env s of
                  Raises ex \<Rightarrow> (Raises ex, w1)
                | Returns uid \<Rightarrow>
                    let w2 = w1\<lparr>data := (data w1)\<lparr>discovered :=
                               AList.update uid speaker (discovered (data w1))\<rparr>\<rparr> in
                    (case setup_coordinator env SonosAlarms s w2 of
                       (Raises ex, w3) \<Rightarrow> (Raises ex, w3)
                     | (Returns _, w3) \<Rightarrow>
                         (case setup_coordinator env SonosFavorites s w3 of
                            (Raises ex, w4) \<Rightarrow> (Raises ex, w4)
                          | (Returns _, w4) \<Rightarrow>
                              (case speaker_setup env speaker of
                                 Raises ex \<Rightarrow> (Raises ex, w4)
                               | Returns _ \<Rightarrow> (Returns (), w4)))))))"

text \<open>\<^verbatim>\<open>SonosDiscoveryManager._discovered_player(soco)\<close>.\<close>

definition discovered_player :: "env \<Rightarrow> soco \<Rightarrow> world \<Rightarrow> unit result \<times> world" where
  "discovered_player env s w =
     (case discovered_player_try env s w of
        (Returns _, w') \<Rightarrow> (Returns (), w')
      | (Raises ex, w') \<Rightarrow>
          if sdk_failure ex then (Returns (), emit (LogWarning (FailedToAdd s)) w')
          else (Raises ex, w'))"

text \<open>
  \<^verbatim>\<open>if soco and soco.is_visible: self._discovered_player(soco)\<close>, shared by
  \<^verbatim>\<open>_discovered_ip\<close> and \<^verbatim>\<open>_manual_hosts\<close>. A handle is truthy; the property
  \<open>is_visible\<close> is read outside every \<^verbatim>\<open>try\<close>.
\<close>

definition add_if_visible :: "env \<Rightarrow> soco option \<Rightarrow> world \<Rightarrow> unit result \<times> world" where
  "add_if_visible env so w =
     (case so of
        None \<Rightarrow> (Returns (), w)
      | Some s \<Rightarrow>
          (case soco_is_visible env s of
             Raises ex \<Rightarrow> (Raises ex, w)
           | Returns visible \<Rightarrow> if visible then discovered_player env s w else (Returns (), w)))"

text \<open>\<^verbatim>\<open>SonosDiscoveryManager._discovered_ip(ip_address)\<close>.\<close>

definition discovered_ip :: "env \<Rightarrow> string \<Rightarrow> world \<Rightarrow> unit result \<times> world" where
  "discovered_ip env ip w =
     (case create_soco env ip DISCOVERED w of
        (Raises ex, w') \<Rightarrow> (Raises ex, w')
      | (Returns so, w') \<Rightarrow> add_if_visible env so w')"

text \<open>
  Truthiness of the boot sequence number handed to the task: \<^verbatim>\<open>None\<close>, the empty
  string (both are \<open>None\<close> here: the task only tests them) and \<open>0\<close> are falsy.
\<close>

definition truthy_seqnum :: "int option \<Rightarrow> bool" where
  "truthy_seqnum b = (case b of None \<Rightarrow> False | Some n \<Rightarrow> n \<noteq> 0)"

text \<open>\<^verbatim>\<open>self.data.boot_counts[uid]\<close>: a missing key raises.\<close>

definition boot_counts_getitem :: "SonosData \<Rightarrow> string \<Rightarrow> int result" where
  "boot_counts_getitem d uid =
     (case boot_counts d uid of None \<Rightarrow> Raises KeyError | Some c \<Rightarrow> Returns c)"

definition send_seen :: "string \<Rightarrow> world \<Rightarrow> unit result \<times> world" where
  "send_seen uid w = (Returns (), emit (DispatcherSend SONOS_SEEN uid None) w)"

text \<open>
  \<^verbatim>\<open>_async_create_discovered_player(uid, discovered_ip, boot_seqnum)\<close>: the body
  run while \<^verbatim>\<open>discovery_lock\<close> is held, from the acquisition to the release.
\<close>

definition async_create_discovered_player ::
  "env \<Rightarrow> string \<Rightarrow> string \<Rightarrow> int option \<Rightarrow> world \<Rightarrow> unit result \<times> world" where
  "async_create_discovered_player env uid ip boot_seqnum w =
     (if uid \<notin> set (map fst (discovered (data w))) then discovered_ip env ip w
      else if \<not> truthy_seqnum boot_seqnum then send_seen uid w
      else
        (case boot_counts_getitem (data w) uid of
           Raises ex \<Rightarrow> (Raises ex, w)
         | Returns c \<Rightarrow>
             (case boot_seqnum of
                None \<Rightarrow> send_seen uid w
              | Some n \<Rightarrow>
                  if n > c then
                    let w1 = w\<lparr>data := (data w)\<lparr>boot_counts := (boot_counts (data w))(uid \<mapsto> n)\<rparr>\<rparr> in
                    (case create_soco env ip REBOOTED w1 of
                       (Raises ex, w2) \<Rightarrow> (Raises ex, w2)
                     | (Returns None, w2) \<Rightarrow> (Returns (), w2)
                     | (Returns (Some s), w2) \<Rightarrow>
                         (Returns (), emit (DispatcherSend SONOS_REBOOTED uid (Some s)) w2))
                  else send_seen uid w)))"

text \<open>
  \<^verbatim>\<open>if boot_seqnum: boot_seqnum = int(boot_seqnum); boot_counts.setdefault(uid, boot_seqnum)\<close>
  of \<^verbatim>\<open>async_discovered_player\<close>: the value handed on, and the new state.
\<close>

definition convert_seqnum ::
  "env \<Rightarrow> string \<Rightarrow> string option \<Rightarrow> world \<Rightarrow> (int option \<times> world) result" where
  "convert_seqnum env uid raw w =
     (case raw of
        None \<Rightarrow> Returns (None, w)
      | Some [] \<Rightarrow> Returns (None, w)
      | Some (c # cs) \<Rightarrow>
          (case int_of_str env (c # cs) of
             Raises ex \<Rightarrow> Raises ex
           | Returns n \<Rightarrow>
               Returns (Some n,
                 if uid \<in> dom (boot_counts (data w)) then w
                 else w\<lparr>data := (data w)\<lparr>boot_counts := (boot_counts (data w))(uid \<mapsto> n)\<rparr>\<rparr>)))"

text \<open>
  \<^verbatim>\<open>async_discovered_player(source, info, discovered_ip, uid, boot_seqnum, model)\<close>,
  the entry point of SSDP and zeroconf discovery (the SSDP callback unpacks its message
  and calls it with source \<^verbatim>\<open>"SSDP"\<close>). \<^verbatim>\<open>info\<close> is only logged.
\<close>

definition async_discovered_player ::
  "env \<Rightarrow> string \<Rightarrow> string \<Rightarrow> string \<Rightarrow> string option \<Rightarrow> string option \<Rightarrow> world
     \<Rightarrow> unit result \<times> world" where
  "async_discovered_player env source ip uid boot_seqnum model w =
     (if (case model of None \<Rightarrow> False | Some m \<Rightarrow> m \<in> set DISCOVERY_IGNORED_MODELS)
      then (Returns (), emit (LogDebug IgnoringDevice) w)
      else
        (case convert_seqnum env uid boot_seqnum w of
           Raises ex \<Rightarrow> (Raises ex, w)
         | Returns (b, w1) \<Rightarrow>
             let w2 = (if uid \<notin> discovery_known (data w1)
                       then (emit (LogDebug (NewDiscovery source uid)) w1)
                              \<lparr>data := (data w1)\<lparr>discovery_known :=
                                  insert uid (discovery_known (data w1))\<rparr>\<rparr>
                       else w1)
             in (Returns (), emit (CreateTask uid ip b) w2)))"

text \<open>
  The generator of \<^verbatim>\<open>_manual_hosts\<close>: the first identifier, in the order of the
  OrderedDict, whose record has the address.
\<close>

definition known_uid_of_ip :: "string \<Rightarrow> SonosData \<Rightarrow> string option" where
  "known_uid_of_ip ip d =
     map_option fst (find (\<lambda>(uid, speaker). ip_address (soco speaker) = ip) (discovered d))"

text \<open>One round of the loop of \<^verbatim>\<open>_manual_hosts\<close>. An empty identifier is falsy.\<close>

definition manual_host :: "env \<Rightarrow> string \<Rightarrow> world \<Rightarrow> unit result \<times> world" where
  "manual_host env host w =
     (case gethostbyname env host of
        Raises ex \<Rightarrow> (Raises ex, w)
      | Returns ip \<Rightarrow>
          (case known_uid_of_ip ip (data w) of
             Some (c # cs) \<Rightarrow> send_seen (c # cs) w
           | _ \<Rightarrow>
               (case create_soco env ip CONFIGURED w of
                  (Raises ex, w') \<Rightarrow> (Raises ex, w')
                | (Returns so, w') \<Rightarrow> add_if_visible env so w')))"

fun manual_hosts_loop :: "env \<Rightarrow> string list \<Rightarrow> world \<Rightarrow> unit result \<times> world" where
  "manual_hosts_loop env [] w = (Returns (), w)"
| "manual_hosts_loop env (host # hosts) w =
     (case manual_host env host w of
        (Raises ex, w') \<Rightarrow> (Raises ex, w')
      | (Returns _, w') \<Rightarrow> manual_hosts_loop env hosts w')"

text \<open>\<^verbatim>\<open>SonosDiscoveryManager._manual_hosts()\<close> over \<^verbatim>\<open>self.hosts\<close>.\<close>

definition manual_hosts :: "env \<Rightarrow> string list \<Rightarrow> world \<Rightarrow> unit result \<times> world" where
  "manual_hosts env hosts w =
     (case manual_hosts_loop env hosts w of
        (Raises ex, w') \<Rightarrow> (Raises ex, w')
      | (Returns _, w') \<Rightarrow>
          (Returns (), (emit CallLater w')\<lparr>data := (data w')\<lparr>hosts_heartbeat := True\<rparr>\<rparr>))"

text \<open>\<^verbatim>\<open>SonosDiscoveryManager._stop_manual_heartbeat(event)\<close>.\<close>

definition stop_manual_heartbeat :: "world \<Rightarrow> unit result \<times> world" where
  "stop_manual_heartbeat w =
     (if hosts_heartbeat (data w)
      then (Returns (), (emit CancelTimer w)\<lparr>data := (data w)\<lparr>hosts_heartbeat := False\<rparr>\<rparr>)
      else (Returns (), w))"

text \<open>
  The operations of the manager that write \<open>SonosData\<close>, and a run of them one after
  the other, each against the network of its moment. A task or callback that ends with an
  exception leaves the state it reached to the next one. The methods left out write
  nothing of \<open>SonosData\<close>: \<^verbatim>\<open>_async_ssdp_discovered_player\<close> unpacks an SSDP
  message and calls \<^verbatim>\<open>async_discovered_player\<close>,
  \<^verbatim>\<open>_async_stop_event_listener\<close> unsubscribes the speakers,
  \<^verbatim>\<open>_async_signal_update_groups\<close> sends a signal and
  \<^verbatim>\<open>setup_platforms_and_discovery\<close> registers the callbacks.
\<close>

datatype manager_op =
    AsyncDiscoveredPlayer string string string "string option" "string option"
  | AsyncCreateDiscoveredPlayer string string "int option"
  | DiscoveredIp string
  | DiscoveredPlayer soco
  | ManualHosts "string list"
  | StopManualHeartbeat

fun run_op :: "env \<Rightarrow> manager_op \<Rightarrow> world \<Rightarrow> unit result \<times> world" where
  "run_op env (AsyncDiscoveredPlayer source ip uid boot_seqnum model) w =
     async_discovered_player env source ip uid boot_seqnum model w"
| "run_op env (AsyncCreateDiscoveredPlayer uid ip boot_seqnum) w =
     async_create_discovered_player env uid ip boot_seqnum w"
| "run_op env (DiscoveredIp ip) w = discovered_ip env ip w"
| "run_op env (DiscoveredPlayer s) w = discovered_player env s w"
| "run_op env (ManualHosts hosts) w = manual_hosts env hosts w"
| "run_op env StopManualHeartbeat w = stop_manual_heartbeat w"

fun run_ops :: "(env \<times> manager_op) list \<Rightarrow> world \<Rightarrow> world" where
  "run_ops [] w = w"
| "run_ops ((env, op) # rest) w = run_ops rest (snd (run_op env op w))"

section \<open>The MySensors sensor entity\<close>

text \<open>
  The constants of \<^verbatim>\<open>homeassistant.const\<close> that the module imports; their values
  are declared in another file, so a unit is either one of them or a string literal.
\<close>

datatype ha_const =
    CONDUCTIVITY | DEGREE | DEVICE_CLASS_HUMIDITY | DEVICE_CLASS_TEMPERATURE
  | ELECTRIC_POTENTIAL_MILLIVOLT | ELECTRICAL_CURRENT_AMPERE | ELECTRICAL_VOLT_AMPERE
  | ENERGY_KILO_WATT_HOUR | FREQUENCY_HERTZ | LENGTH_METERS | LIGHT_LUX | MASS_KILOGRAMS
  | PERCENTAGE | POWER_WATT | SOUND_PRESSURE_DB | TEMP_CELSIUS | TEMP_FAHRENHEIT | VOLT
  | VOLUME_CUBIC_METERS

datatype pystr = Const ha_const | Str string

text \<open>A row of the table: \<^verbatim>\<open>[unit, icon, device_class]\<close>, always three cells.\<close>

type_synonym sensor_type = "pystr option \<times> pystr option \<times> pystr option"

datatype sensor_entry = Row sensor_type | ByChildType "(string \<times> sensor_type) list"

definition SENSORS :: "(string \<times> sensor_entry) list" where
  "SENSORS =
    [(''V_TEMP'', Row (None, None, Some (Const DEVICE_CLASS_TEMPERATURE))),
     (''V_HUM'', Row (Some (Const PERCENTAGE), Some (Str ''mdi:water-percent''),
                      Some (Const DEVICE_CLASS_HUMIDITY))),
     (''V_DIMMER'', Row (Some (Const PERCENTAGE), Some (Str ''mdi:percent''), None)),
     (''V_PERCENTAGE'', Row (Some (Const PERCENTAGE), Some (Str ''mdi:percent''), None)),
     (''V_PRESSURE'', Row (None, Some (Str ''mdi:gauge''), None)),
     (''V_FORECAST'', Row (None, Some (Str ''mdi:weather-partly-cloudy''), None)),
     (''V_RAIN'', Row (None, Some (Str ''mdi:weather-rainy''), None)),
     (''V_RAINRATE'', Row (None, Some (Str ''mdi:weather-rainy''), None)),
     (''V_WIND'', Row (None, Some (Str ''mdi:weather-windy''), None)),
     (''V_GUST'', Row (None, Some (Str ''mdi:weather-windy''), None)),
     (''V_DIRECTION'', Row (Some (Const DEGREE), Some (Str ''mdi:compass''), None)),
     (''V_WEIGHT'', Row (Some (Const MASS_KILOGRAMS), Some (Str ''mdi:weight-kilogram''), None)),
     (''V_DISTANCE'', Row (Some (Const LENGTH_METERS), Some (Str ''mdi:ruler''), None)),
     (''V_IMPEDANCE'', Row (Some (Str ''ohm''), None, None)),
     (''V_WATT'', Row (Some (Const POWER_WATT), None, None)),
     (''V_KWH'', Row (Some (Const ENERGY_KILO_WATT_HOUR), None, None)),
     (''V_LIGHT_LEVEL'', Row (Some (Const PERCENTAGE), Some (Str ''mdi:white-balance-sunny''), None)),
     (''V_FLOW'', Row (Some (Const LENGTH_METERS), Some (Str ''mdi:gauge''), None)),
     (''V_VOLUME'', Row (Some (Const VOLUME_CUBIC_METERS), None, None)),
     (''V_LEVEL'', ByChildType
        [(''S_SOUND'', (Some (Const SOUND_PRESSURE_DB), Some (Str ''mdi:volume-high''), None)),
         (''S_VIBRATION'', (Some (Const FREQUENCY_HERTZ), None, None)),
         (''S_LIGHT_LEVEL'', (Some (Const LIGHT_LUX), Some (Str ''mdi:white-balance-sunny''), None))]),
     (''V_VOLTAGE'', Row (Some (Const VOLT), Some (Str ''mdi:flash''), None)),
     (''V_CURRENT'', Row (Some (Const ELECTRICAL_CURRENT_AMPERE), Some (Str ''mdi:flash-auto''), None)),
     (''V_PH'', Row (Some (Str ''pH''), None, None)),
     (''V_ORP'', Row (Some (Const ELECTRIC_POTENTIAL_MILLIVOLT), None, None)),
     (''V_EC'', Row (Some (Const CONDUCTIVITY), None, None)),
     (''V_VAR'', Row (Some (Str ''var''), None, None)),
     (''V_VA'', Row (Some (Const ELECTRICAL_VOLT_AMPERE), None, None))]"

text \<open>
  \<^verbatim>\<open>self.gateway.const\<close>: the enums \<^verbatim>\<open>SetReq\<close> and \<^verbatim>\<open>Presentation\<close> of the
  gateway's protocol version, declared by the sensor SDK. \<open>SetReq_name v\<close> is
  \<^verbatim>\<open>SetReq(v).name\<close> (\<open>None\<close> where \<open>v\<close> is no member and the call raises
  ValueError); \<open>V_UNIT_PREFIX\<close> is \<open>None\<close> where the enum has no such member.
\<close>

record gateway_const =
  SetReq_name :: "int \<Rightarrow> string option"
  Presentation_name :: "int \<Rightarrow> string option"
  V_TEMP :: int
  V_UNIT_PREFIX :: "int option"

text \<open>
  What the entity reads: the gateway's protocol version and enums, its own value type,
  child type and values, and the unit system of the platform.
\<close>

record MySensorsSensor =
  protocol_version :: string
  const :: gateway_const
  value_type :: int
  child_type :: int
  entity_values :: "int \<rightharpoonup> string"
  is_metric :: bool

text \<open>\<^verbatim>\<open>MySensorsSensor._get_sensor_type()\<close>.\<close>

definition get_sensor_type :: "MySensorsSensor \<Rightarrow> sensor_type result" where
  "get_sensor_type e =
     (case SetReq_name (const e) (value_type e) of
        None \<Rightarrow> Raises ValueError
      | Some name \<Rightarrow>
          (case map_of SENSORS name of
             None \<Rightarrow> Returns (None, None, None)
           | Some (Row t) \<Rightarrow> Returns t
           | Some (ByChildType d) \<Rightarrow>
               (case Presentation_name (const e) (child_type e) of
                  None \<Rightarrow> Raises ValueError
                | Some pname \<Rightarrow>
                    Returns (case map_of d pname of None \<Rightarrow> (None, None, None) | Some t \<Rightarrow> t))))"

text \<open>
  \<^verbatim>\<open>MySensorsSensor.unit_of_measurement\<close>. \<open>version_ge a b\<close> is the outcome of
  \<^verbatim>\<open>AwesomeVersion(a) >= AwesomeVersion(b)\<close>, a comparison of another library: it
  returns a truth value or raises (\<^verbatim>\<open>AwesomeVersionCompare\<close>, for versions it cannot
  order), and what it raises leaves the property. \<open>unit_after_custom\<close> is the code below
  the first \<^verbatim>\<open>if\<close>.
\<close>

definition unit_after_custom :: "MySensorsSensor \<Rightarrow> pystr option result" where
  "unit_after_custom e =
     (case SetReq_name (const e) (value_type e) of
        None \<Rightarrow> Raises ValueError
      | Some _ \<Rightarrow>
          if value_type e = V_TEMP (const e)
          then (if is_metric e then Returns (Some (Const TEMP_CELSIUS))
                else Returns (Some (Const TEMP_FAHRENHEIT)))
          else (case get_sensor_type e of
                  Raises ex \<Rightarrow> Raises ex
                | Returns (unit, icon, device_class) \<Rightarrow> Returns unit))"

definition unit_of_measurement ::
  "(string \<Rightarrow> string \<Rightarrow> bool result) \<Rightarrow> MySensorsSensor \<Rightarrow> pystr option result" where
  "unit_of_measurement version_ge e =
     (case version_ge (protocol_version e) ''1.5'' of
        Raises ex \<Rightarrow> Raises ex
      | Returns at_least \<Rightarrow>
          if at_least
          then (case V_UNIT_PREFIX (const e) of
                  None \<Rightarrow> Raises AttributeError
                | Some k \<Rightarrow>
                    (case entity_values e k of
                       Some custom_unit \<Rightarrow> Returns (Some (Str custom_unit))
                     | None \<Rightarrow> unit_after_custom e))
          else unit_after_custom e)"

section \<open>Initial state, observations and sample networks\<close>

text \<open>\<^verbatim>\<open>SonosData.__init__\<close>, and the world before anything was logged or sent.\<close>

definition SonosData_init :: SonosData where
  "SonosData_init =
     \<lparr>discovered = [], favorites = Map.empty, alarms = Map.empty, hosts_heartbeat = False,
      discovery_known = {}, boot_counts = Map.empty\<rparr>"

definition world_init :: world where
  "world_init = \<lparr>data = SonosData_init, out = []\<rparr>"

text \<open>The tasks created so far, and the constructor calls made so far, in order.\<close>

fun created_tasks :: "effect list \<Rightarrow> (string \<times> string \<times> int option) list" where
  "created_tasks [] = []"
| "created_tasks (CreateTask uid ip b # es) = (uid, ip, b) # created_tasks es"
| "created_tasks (e # es) = created_tasks es"

fun soco_calls :: "effect list \<Rightarrow> string list" where
  "soco_calls [] = []"
| "soco_calls (NewSoCo ip # es) = ip # soco_calls es"
| "soco_calls (e # es) = soco_calls es"

fun speaker_calls :: "effect list \<Rightarrow> soco list" where
  "speaker_calls [] = []"
| "speaker_calls (NewSonosSpeaker s # es) = s # speaker_calls es"
| "speaker_calls (e # es) = speaker_calls es"

fun warnings :: "effect list \<Rightarrow> log_message list" where
  "warnings [] = []"
| "warnings (LogWarning m # es) = m # warnings es"
| "warnings (e # es) = warnings es"

text \<open>
  Sample networks for the concrete instances below. In \<open>net_up uid\<close> every call returns
  and the device at any address reports the identifier \<open>uid\<close>; in \<open>net_down uid\<close> no
  connection can be made. Host names resolve to themselves, and \<open>int_of_str\<close> knows the
  two numerals the instances use.
\<close>

definition net_up :: "string \<Rightarrow> env" where
  "net_up uid =
     \<lparr>pysonos_SoCo = (\<lambda>ip. Returns ()),
      soco_uid = (\<lambda>s. Returns uid),
      soco_volume = (\<lambda>s. Returns 20),
      soco_is_visible = (\<lambda>s. Returns True),
      soco_household_id = (\<lambda>s. Returns ''Sonos_HH1''),
      get_speaker_info = (\<lambda>s. Returns [(''zone_name'', ''Kitchen'')]),
      new_SonosSpeaker = (\<lambda>s i. Returns ()),
      coordinator_setup = (\<lambda>cls hid s. Returns ()),
      speaker_setup = (\<lambda>sp. Returns ()),
      gethostbyname = (\<lambda>host. Returns host),
      int_of_str = (\<lambda>s. if s = ''3'' then Returns 3 else if s = ''4'' then Returns 4
                         else Raises ValueError)\<rparr>"

definition net_down :: "string \<Rightarrow> env" where
  "net_down uid = (net_up uid)\<lparr>pysonos_SoCo := (\<lambda>ip. Raises OSError)\<rparr>"

text \<open>A network where the device answers but \<^verbatim>\<open>get_speaker_info\<close> fails.\<close>

definition net_info_fails :: "string \<Rightarrow> env" where
  "net_info_fails uid = (net_up uid)\<lparr>get_speaker_info := (\<lambda>s. Raises SoCoException)\<rparr>"

text \<open>
  A network where the device answers the three calls of \<^verbatim>\<open>_create_soco\<close> and is
  lost before \<^verbatim>\<open>soco.is_visible\<close> is read.
\<close>

definition net_visibility_fails :: "string \<Rightarrow> env" where
  "net_visibility_fails uid = (net_up uid)\<lparr>soco_is_visible := (\<lambda>s. Raises SoCoException)\<rparr>"

text \<open>A state with one device, found at 10.0.0.5 with boot sequence number 3.\<close>

definition world_one :: world where
  "world_one =
     \<lparr>data = SonosData_init
        \<lparr>discovered := [(''RINCON_A'', \<lparr>soco = SoCo ''10.0.0.5'', info = [(''zone_name'', ''Kitchen'')]\<rparr>)],
         discovery_known := {''RINCON_A''},
         boot_counts := [''RINCON_A'' \<mapsto> 3]\<rparr>,
      out = []\<rparr>"

text \<open>A state with a second device, found at 10.0.0.6, and a network of invisible devices.\<close>

definition world_two :: world where
  "world_two =
     world_one\<lparr>data := (data world_one)
       \<lparr>discovered := discovered (data world_one) @
          [(''RINCON_C'', \<lparr>soco = SoCo ''10.0.0.6'', info = [(''zone_name'', ''Office'')]\<rparr>)]\<rparr>\<rparr>"

definition net_invisible :: "string \<Rightarrow> env" where
  "net_invisible uid = (net_up uid)\<lparr>soco_is_visible := (\<lambda>s. Returns False)\<rparr>"

section \<open>Invariants\<close>

text \<open>
  The two invariants of the data model: one device record per identifier, and boot
  sequence numbers that only grow (an identifier with a stored number keeps one, at
  least as large).
\<close>

definition unique_records :: "SonosData \<Rightarrow> bool" where
  "unique_records d = distinct (map fst (discovered d))"

definition boot_counts_le :: "SonosData \<Rightarrow> SonosData \<Rightarrow> bool" where
  "boot_counts_le d d' =
     (\<forall>uid c. boot_counts d uid = Some c \<longrightarrow> (\<exists>c'. boot_counts d' uid = Some c' \<and> c \<le> c'))"

text \<open>A run of four operations: a reboot of the known device, then a new device.\<close>

definition sample_steps :: "(env \<times> manager_op) list" where
  "sample_steps =
     [(net_up ''RINCON_A'', AsyncDiscoveredPlayer ''SSDP'' ''10.0.0.9'' ''RINCON_A'' (Some ''4'') None),
      (net_up ''RINCON_A'', AsyncCreateDiscoveredPlayer ''RINCON_A'' ''10.0.0.9'' (Some 4)),
      (net_up ''RINCON_B'', AsyncDiscoveredPlayer ''SSDP'' ''10.0.0.7'' ''RINCON_B'' (Some ''3'') None),
      (net_up ''RINCON_B'', AsyncCreateDiscoveredPlayer ''RINCON_B'' ''10.0.0.7'' (Some 3))]"

text \<open>Operations that run between an event and its task.\<close>

definition later_steps :: "(env \<times> manager_op) list" where
  "later_steps =
     [(net_down ''RINCON_B'', ManualHosts [''10.0.0.8'']),
      (net_up ''RINCON_A'', AsyncCreateDiscoveredPlayer ''RINCON_A'' ''10.0.0.9'' (Some 4)),
      (net_up ''RINCON_B'', DiscoveredIp ''10.0.0.7'')]"


section \<open>The precedence of units\<close>

text \<open>
  The custom unit of an entity: the value stored under \<^verbatim>\<open>V_UNIT_PREFIX\<close>, looked at
  only when the protocol version compares as at least 1.5. The unit of the static table:
  the first cell of the row of the value type's name (of the row of the child type's
  name, where the table has rows by child type), \<open>None\<close> where there is no row. An entity
  is well formed when none of the lookups of the property raises: its protocol version
  can be compared with 1.5, its value type and child type are members of the gateway's
  enums, and the enum of a gateway of version 1.5 or later has the member
  \<^verbatim>\<open>V_UNIT_PREFIX\<close>.
\<close>

definition custom_unit ::
  "(string \<Rightarrow> string \<Rightarrow> bool result) \<Rightarrow> MySensorsSensor \<Rightarrow> string option" where
  "custom_unit version_ge e =
     (if version_ge (protocol_version e) ''1.5'' = Returns True
      then (case V_UNIT_PREFIX (const e) of None \<Rightarrow> None | Some k \<Rightarrow> entity_values e k)
      else None)"

definition table_unit :: "MySensorsSensor \<Rightarrow> pystr option" where
  "table_unit e =
     (case SetReq_name (const e) (value_type e) of
        None \<Rightarrow> None
      | Some name \<Rightarrow>
          (case map_of SENSORS name of
             None \<Rightarrow> None
           | Some (Row (unit, icon, device_class)) \<Rightarrow> unit
           | Some (ByChildType d) \<Rightarrow>
               (case Presentation_name (const e) (child_type e) of
                  None \<Rightarrow> None
                | Some pname \<Rightarrow>
                    (case map_of d pname of None \<Rightarrow> None | Some (unit, icon, device_class) \<Rightarrow> unit))))"

definition well_formed_entity ::
  "(string \<Rightarrow> string \<Rightarrow> bool result) \<Rightarrow> MySensorsSensor \<Rightarrow> bool" where
  "well_formed_entity version_ge e =
     ((\<exists>at_least. version_ge (protocol_version e) ''1.5'' = Returns at_least)
      \<and> (version_ge (protocol_version e) ''1.5'' = Returns True \<longrightarrow> V_UNIT_PREFIX (const e) \<noteq> None)
      \<and> SetReq_name (const e) (value_type e) \<noteq> None
      \<and> Presentation_name (const e) (child_type e) \<noteq> None)"

text \<open>
  A gateway, a version comparison and entities for the concrete instances. The
  comparison orders the versions 1.4 to 2.3 against 1.5 and raises on every other string,
  as the library does on \<^verbatim>\<open>"1.5dev"\<close>.
\<close>

definition sample_version_ge :: "string \<Rightarrow> string \<Rightarrow> bool result" where
  "sample_version_ge a b =
     (if b = ''1.5'' \<and> a \<in> set [''1.5'', ''2.0'', ''2.3''] then Returns True
      else if b = ''1.5'' \<and> a = ''1.4'' then Returns False
      else Raises AwesomeVersionCompare)"

definition sample_const :: gateway_const where
  "sample_const =
     \<lparr>SetReq_name = (\<lambda>v. if v = 0 then Some ''V_TEMP'' else if v = 1 then Some ''V_HUM''
                          else if v = 24 then Some ''V_VAR1'' else if v = 37 then Some ''V_LEVEL''
                          else if v = 43 then Some ''V_UNIT_PREFIX'' else None),
      Presentation_name = (\<lambda>v. if v = 6 then Some ''S_TEMP'' else if v = 7 then Some ''S_HUM''
                                else if v = 33 then Some ''S_SOUND'' else None),
      V_TEMP = 0,
      V_UNIT_PREFIX = Some 43\<rparr>"

definition sample_sensor :: "string \<Rightarrow> int \<Rightarrow> int \<Rightarrow> (int \<rightharpoonup> string) \<Rightarrow> bool \<Rightarrow> MySensorsSensor" where
  "sample_sensor version vt ct vals metric =
     \<lparr>protocol_version = version, const = sample_const, value_type = vt, child_type = ct,
      entity_values = vals, is_metric = metric\<rparr>"

section \<open>Properties of the discovery manager\<close>

lemma data_emit: "data (emit e w) = data w"
  by (simp add: emit_def)

lemma out_emit: "out (emit e w) = out w @ [e]"
  by (simp add: emit_def)

lemma created_tasks_append: "created_tasks (xs @ ys) = created_tasks xs @ created_tasks ys"
  by (induction xs rule: created_tasks.induct) simp_all

lemma warnings_append: "warnings (xs @ ys) = warnings xs @ warnings ys"
  by (induction xs rule: warnings.induct) simp_all

lemma soco_calls_append: "soco_calls (xs @ ys) = soco_calls xs @ soco_calls ys"
  by (induction xs rule: soco_calls.induct) simp_all

lemma speaker_calls_append: "speaker_calls (xs @ ys) = speaker_calls xs @ speaker_calls ys"
  by (induction xs rule: speaker_calls.induct) simp_all

lemma create_soco_data: "data (snd (create_soco env ip source w)) = data w"
  by (simp add: create_soco_def data_emit split: sum.splits)

lemma create_soco_out:
  "out (snd (create_soco env ip source w)) =
     out w @ NewSoCo ip #
       (case create_soco_try env ip of
          Returns s \<Rightarrow> []
        | Raises ex \<Rightarrow> if sdk_failure ex then [LogWarning (FailedToConnect source ip ex)] else [])"
  by (simp add: create_soco_def out_emit split: sum.splits)

lemma create_soco_fst:
  "fst (create_soco env ip source w) =
     (case create_soco_try env ip of
        Returns s \<Rightarrow> Returns (Some s)
      | Raises ex \<Rightarrow> if sdk_failure ex then Returns None else Raises ex)"
  by (simp add: create_soco_def split: sum.splits)

lemma create_soco_try_handle: "create_soco_try env ip = Returns s \<Longrightarrow> s = SoCo ip"
  by (auto simp: create_soco_try_def split: sum.splits)

lemma setup_coordinator_frame:
  "discovered (data (snd (setup_coordinator env cls s w))) = discovered (data w)"
  "boot_counts (data (snd (setup_coordinator env cls s w))) = boot_counts (data w)"
  "discovery_known (data (snd (setup_coordinator env cls s w))) = discovery_known (data w)"
  "hosts_heartbeat (data (snd (setup_coordinator env cls s w))) = hosts_heartbeat (data w)"
  "out (snd (setup_coordinator env cls s w)) = out w"
  by (simp_all add: setup_coordinator_def coord_dict_store_def
           split: sum.splits coordinator_class.splits)

lemma discovered_player_try_frame:
  "boot_counts (data (snd (discovered_player_try env s w))) = boot_counts (data w)"
  "discovery_known (data (snd (discovered_player_try env s w))) = discovery_known (data w)"
  "hosts_heartbeat (data (snd (discovered_player_try env s w))) = hosts_heartbeat (data w)"
  "warnings (out (snd (discovered_player_try env s w))) = warnings (out w)"
  "soco_calls (out (snd (discovered_player_try env s w))) = soco_calls (out w)"
  "created_tasks (out (snd (discovered_player_try env s w))) = created_tasks (out w)"
  by (simp_all add: discovered_player_try_def Let_def case_prod_beta data_emit out_emit
        setup_coordinator_frame warnings_append soco_calls_append created_tasks_append
        split: sum.splits)

lemma discovered_player_try_discovered:
  "discovered (data (snd (discovered_player_try env s w))) =
     (case get_speaker_info env s of
        Raises ex \<Rightarrow> discovered (data w)
      | Returns i \<Rightarrow>
          (case new_SonosSpeaker env s i of
             Raises ex \<Rightarrow> discovered (data w)
           | Returns _ \<Rightarrow>
               (case soco_uid env s of
                  Raises ex \<Rightarrow> discovered (data w)
                | Returns uid \<Rightarrow> AList.update uid \<lparr>soco = s, info = i\<rparr> (discovered (data w)))))"
  by (simp add: discovered_player_try_def Let_def case_prod_beta data_emit
        setup_coordinator_frame split: sum.splits)

lemma discovered_player_snd:
  "snd (discovered_player env s w) =
     (case fst (discovered_player_try env s w) of
        Returns _ \<Rightarrow> snd (discovered_player_try env s w)
      | Raises ex \<Rightarrow>
          if sdk_failure ex then emit (LogWarning (FailedToAdd s)) (snd (discovered_player_try env s w))
          else snd (discovered_player_try env s w))"
  by (simp add: discovered_player_def case_prod_beta split: sum.splits)

lemma discovered_player_fst:
  "fst (discovered_player env s w) =
     (case fst (discovered_player_try env s w) of
        Returns _ \<Rightarrow> Returns ()
      | Raises ex \<Rightarrow> if sdk_failure ex then Returns () else Raises ex)"
  by (simp add: discovered_player_def case_prod_beta split: sum.splits)

lemma discovered_player_frame:
  "boot_counts (data (snd (discovered_player env s w))) = boot_counts (data w)"
  "discovery_known (data (snd (discovered_player env s w))) = discovery_known (data w)"
  "hosts_heartbeat (data (snd (discovered_player env s w))) = hosts_heartbeat (data w)"
  "soco_calls (out (snd (discovered_player env s w))) = soco_calls (out w)"
  "created_tasks (out (snd (discovered_player env s w))) = created_tasks (out w)"
  "discovered (data (snd (discovered_player env s w)))
     = discovered (data (snd (discovered_player_try env s w)))"
  by (simp_all add: discovered_player_snd data_emit out_emit discovered_player_try_frame
        soco_calls_append created_tasks_append split: sum.splits)

lemma boot_counts_le_refl: "boot_counts d' = boot_counts d \<Longrightarrow> boot_counts_le d d'"
  by (simp add: boot_counts_le_def)

lemma boot_counts_le_trans:
  "boot_counts_le d1 d2 \<Longrightarrow> boot_counts_le d2 d3 \<Longrightarrow> boot_counts_le d1 d3"
  unfolding boot_counts_le_def by (meson order_trans)

lemma discovered_player_unique:
  "unique_records (data w) \<Longrightarrow> unique_records (data (snd (discovered_player env s w)))"
  by (simp add: unique_records_def discovered_player_frame discovered_player_try_discovered
        distinct_update split: sum.splits)

lemma add_if_visible_frame:
  "boot_counts (data (snd (add_if_visible env so w))) = boot_counts (data w)"
  "discovery_known (data (snd (add_if_visible env so w))) = discovery_known (data w)"
  "hosts_heartbeat (data (snd (add_if_visible env so w))) = hosts_heartbeat (data w)"
  "soco_calls (out (snd (add_if_visible env so w))) = soco_calls (out w)"
  "created_tasks (out (snd (add_if_visible env so w))) = created_tasks (out w)"
  by (simp_all add: add_if_visible_def discovered_player_frame split: option.splits sum.splits)

lemma add_if_visible_unique:
  "unique_records (data w) \<Longrightarrow> unique_records (data (snd (add_if_visible env so w)))"
  by (simp add: add_if_visible_def discovered_player_unique split: option.splits sum.splits)

lemma discovered_ip_snd:
  "snd (discovered_ip env ip w) =
     (case fst (create_soco env ip DISCOVERED w) of
        Raises ex \<Rightarrow> snd (create_soco env ip DISCOVERED w)
      | Returns so \<Rightarrow> snd (add_if_visible env so (snd (create_soco env ip DISCOVERED w))))"
  by (simp add: discovered_ip_def case_prod_beta split: sum.splits)

lemma discovered_ip_frame:
  "boot_counts (data (snd (discovered_ip env ip w))) = boot_counts (data w)"
  "discovery_known (data (snd (discovered_ip env ip w))) = discovery_known (data w)"
  "hosts_heartbeat (data (snd (discovered_ip env ip w))) = hosts_heartbeat (data w)"
  "soco_calls (out (snd (discovered_ip env ip w))) = soco_calls (out w) @ [ip]"
  "created_tasks (out (snd (discovered_ip env ip w))) = created_tasks (out w)"
  by (simp_all add: discovered_ip_snd add_if_visible_frame create_soco_data create_soco_out
        soco_calls_append created_tasks_append split: sum.splits)

lemma discovered_ip_unique:
  assumes "unique_records (data w)"
  shows "unique_records (data (snd (discovered_ip env ip w)))"
proof -
  have "unique_records (data (snd (create_soco env ip DISCOVERED w)))"
    using assms by (simp add: unique_records_def create_soco_data)
  then show ?thesis
    by (simp add: discovered_ip_snd add_if_visible_unique split: sum.splits)
qed

lemma create_soco_unique:
  "unique_records (data (snd (create_soco env ip source w))) = unique_records (data w)"
  by (simp add: unique_records_def create_soco_data)

lemma send_seen_data: "data (snd (send_seen uid w)) = data w"
  by (simp add: send_seen_def data_emit)

lemma async_create_unknown:
  "uid \<notin> set (map fst (discovered (data w))) \<Longrightarrow>
     async_create_discovered_player env uid ip b w = discovered_ip env ip w"
  by (simp add: async_create_discovered_player_def)

lemma async_create_known_frame:
  assumes "uid \<in> set (map fst (discovered (data w)))"
  shows "discovered (data (snd (async_create_discovered_player env uid ip b w))) = discovered (data w)"
    and "alarms (data (snd (async_create_discovered_player env uid ip b w))) = alarms (data w)"
    and "favorites (data (snd (async_create_discovered_player env uid ip b w))) = favorites (data w)"
    and "discovery_known (data (snd (async_create_discovered_player env uid ip b w)))
           = discovery_known (data w)"
    and "hosts_heartbeat (data (snd (async_create_discovered_player env uid ip b w)))
           = hosts_heartbeat (data w)"
    and "speaker_calls (out (snd (async_create_discovered_player env uid ip b w)))
           = speaker_calls (out w)"
  using assms
  by (simp_all add: async_create_discovered_player_def send_seen_def case_prod_beta
        create_soco_data create_soco_out data_emit out_emit Let_def speaker_calls_append
        split: sum.splits option.splits)

lemma async_create_unique:
  "unique_records (data w) \<Longrightarrow>
     unique_records (data (snd (async_create_discovered_player env uid ip b w)))"
proof (cases "uid \<in> set (map fst (discovered (data w)))")
  case True
  assume "unique_records (data w)"
  then show ?thesis
    by (simp add: unique_records_def async_create_known_frame [OF True])
next
  case False
  assume "unique_records (data w)"
  then show ?thesis
    by (simp add: async_create_unknown [OF False] discovered_ip_unique)
qed

lemma async_create_boot_counts:
  "boot_counts_le (data w) (data (snd (async_create_discovered_player env uid ip b w)))"
  by (auto simp: async_create_discovered_player_def discovered_ip_frame send_seen_data
        case_prod_beta create_soco_data data_emit boot_counts_le_def Let_def
        boot_counts_getitem_def
        split: sum.splits option.splits)

lemma async_discovered_unique:
  "unique_records (data w) \<Longrightarrow>
     unique_records (data (snd (async_discovered_player env source ip uid b model w)))"
  by (auto simp: async_discovered_player_def convert_seqnum_def data_emit unique_records_def
        Let_def split: sum.splits option.splits list.splits)

lemma async_discovered_boot_counts:
  "boot_counts_le (data w) (data (snd (async_discovered_player env source ip uid b model w)))"
  by (auto simp: async_discovered_player_def convert_seqnum_def data_emit boot_counts_le_def
        Let_def split: sum.splits option.splits list.splits)

lemma manual_host_frame:
  "boot_counts (data (snd (manual_host env host w))) = boot_counts (data w)"
  "discovery_known (data (snd (manual_host env host w))) = discovery_known (data w)"
  "hosts_heartbeat (data (snd (manual_host env host w))) = hosts_heartbeat (data w)"
  "created_tasks (out (snd (manual_host env host w))) = created_tasks (out w)"
  by (simp_all add: manual_host_def send_seen_def data_emit out_emit case_prod_beta
        add_if_visible_frame create_soco_data create_soco_out created_tasks_append
        split: sum.splits option.splits list.splits)

lemma manual_host_unique:
  "unique_records (data w) \<Longrightarrow> unique_records (data (snd (manual_host env host w)))"
  by (simp add: manual_host_def send_seen_def data_emit case_prod_beta
        add_if_visible_unique create_soco_unique unique_records_def [of "data w"]
        split: sum.splits option.splits list.splits)

lemma manual_hosts_loop_frame:
  "boot_counts (data (snd (manual_hosts_loop env hosts w))) = boot_counts (data w)
   \<and> discovery_known (data (snd (manual_hosts_loop env hosts w))) = discovery_known (data w)
   \<and> hosts_heartbeat (data (snd (manual_hosts_loop env hosts w))) = hosts_heartbeat (data w)
   \<and> created_tasks (out (snd (manual_hosts_loop env hosts w))) = created_tasks (out w)"
proof (induction hosts arbitrary: w)
  case Nil
  show ?case by simp
next
  case (Cons host hosts)
  show ?case
  proof (cases "fst (manual_host env host w)")
    case (Inl ex)
    then show ?thesis
      by (simp add: case_prod_beta manual_host_frame)
  next
    case (Inr u)
    then show ?thesis
      using Cons.IH [of "snd (manual_host env host w)"]
      by (simp add: case_prod_beta manual_host_frame)
  qed
qed

lemma manual_hosts_loop_unique:
  "unique_records (data w) \<Longrightarrow> unique_records (data (snd (manual_hosts_loop env hosts w)))"
proof (induction hosts arbitrary: w)
  case Nil
  then show ?case by simp
next
  case (Cons host hosts)
  show ?case
  proof (cases "fst (manual_host env host w)")
    case (Inl ex)
    then show ?thesis
      using Cons.prems by (simp add: case_prod_beta manual_host_unique)
  next
    case (Inr u)
    then show ?thesis
      using Cons.IH [of "snd (manual_host env host w)"] Cons.prems
      by (simp add: case_prod_beta manual_host_unique)
  qed
qed

lemma manual_hosts_frame:
  "boot_counts (data (snd (manual_hosts env hosts w))) = boot_counts (data w)"
  "discovery_known (data (snd (manual_hosts env hosts w))) = discovery_known (data w)"
  "created_tasks (out (snd (manual_hosts env hosts w))) = created_tasks (out w)"
  by (simp_all add: manual_hosts_def case_prod_beta manual_hosts_loop_frame data_emit out_emit
        created_tasks_append split: sum.splits)

lemma manual_hosts_unique:
  "unique_records (data w) \<Longrightarrow> unique_records (data (snd (manual_hosts env hosts w)))"
  using manual_hosts_loop_unique [of w env hosts]
  by (simp add: manual_hosts_def case_prod_beta data_emit unique_records_def split: sum.splits)

lemma stop_manual_heartbeat_frame:
  "boot_counts (data (snd (stop_manual_heartbeat w))) = boot_counts (data w)"
  "discovered (data (snd (stop_manual_heartbeat w))) = discovered (data w)"
  by (simp_all add: stop_manual_heartbeat_def data_emit)

lemma run_op_unique:
  "unique_records (data w) \<Longrightarrow> unique_records (data (snd (run_op env op w)))"
  by (cases op)
     (simp_all add: async_discovered_unique async_create_unique discovered_ip_unique
        discovered_player_unique manual_hosts_unique stop_manual_heartbeat_frame
        unique_records_def [of "data (snd (stop_manual_heartbeat w))"]
        unique_records_def [of "data w"])

lemma run_op_boot_counts: "boot_counts_le (data w) (data (snd (run_op env op w)))"
  by (cases op)
     (simp_all add: async_discovered_boot_counts async_create_boot_counts boot_counts_le_refl
        discovered_ip_frame discovered_player_frame manual_hosts_frame
        stop_manual_heartbeat_frame)

lemma run_ops_unique:
  "unique_records (data w) \<Longrightarrow> unique_records (data (run_ops steps w))"
proof (induction steps arbitrary: w)
  case Nil
  then show ?case by simp
next
  case (Cons step steps)
  obtain env op where step: "step = (env, op)" by (cases step)
  have "unique_records (data (snd (run_op env op w)))"
    using Cons.prems by (rule run_op_unique)
  then have "unique_records (data (run_ops steps (snd (run_op env op w))))"
    by (rule Cons.IH)
  then show ?case by (simp add: step)
qed

lemma run_ops_boot_counts: "boot_counts_le (data w) (data (run_ops steps w))"
proof (induction steps arbitrary: w)
  case Nil
  show ?case by (simp add: boot_counts_le_refl)
next
  case (Cons step steps)
  obtain env op where step: "step = (env, op)" by (cases step)
  have "boot_counts_le (data w) (data (snd (run_op env op w)))"
    by (rule run_op_boot_counts)
  moreover have "boot_counts_le (data (snd (run_op env op w)))
                   (data (run_ops steps (snd (run_op env op w))))"
    by (rule Cons.IH)
  ultimately show ?case
    by (simp add: step) (rule boot_counts_le_trans)
qed

lemma boot_counts_le_dom:
  "boot_counts_le d d' \<Longrightarrow> boot_counts d uid = Some c \<Longrightarrow> \<exists>c'. boot_counts d' uid = Some c'"
  unfolding boot_counts_le_def by blast

lemma discovered_player_try_speaker_calls:
  "speaker_calls (out (snd (discovered_player_try env s w))) =
     speaker_calls (out w) @ (case get_speaker_info env s of Raises ex \<Rightarrow> [] | Returns i \<Rightarrow> [s])"
  by (simp add: discovered_player_try_def Let_def case_prod_beta out_emit
        setup_coordinator_frame speaker_calls_append split: sum.splits)

lemma create_soco_caught:
  assumes "sdk_failure ex" "create_soco_try env ip = Raises ex"
  shows "create_soco env ip source w
           = (Returns None, w\<lparr>out := out w @ [NewSoCo ip, LogWarning (FailedToConnect source ip ex)]\<rparr>)"
  using assms by (simp add: create_soco_def emit_def)

lemma discovered_ip_caught:
  assumes "sdk_failure ex" "create_soco_try env ip = Raises ex"
  shows "discovered_ip env ip w
           = (Returns (), w\<lparr>out := out w @ [NewSoCo ip, LogWarning (FailedToConnect DISCOVERED ip ex)]\<rparr>)"
  by (simp add: discovered_ip_def create_soco_caught [OF assms] add_if_visible_def)

lemma discovered_player_caught:
  assumes "sdk_failure ex" "fst (discovered_player_try env s w) = Raises ex"
  shows "discovered_player env s w
           = (Returns (), emit (LogWarning (FailedToAdd s)) (snd (discovered_player_try env s w)))"
  using assms by (simp add: discovered_player_def case_prod_beta)

lemmas sonos_defs = world_one_def world_init_def SonosData_init_def net_up_def net_down_def
      net_info_fails_def net_visibility_fails_def net_invisible_def world_two_def
      async_discovered_player_def convert_seqnum_def async_create_discovered_player_def
      DISCOVERY_IGNORED_MODELS_def emit_def truthy_seqnum_def boot_counts_getitem_def
      create_soco_def create_soco_try_def send_seen_def discovered_ip_def add_if_visible_def
      discovered_player_def discovered_player_try_def setup_coordinator_def coord_dict_def
      coord_dict_store_def sdk_failure_def manual_host_def manual_hosts_def known_uid_of_ip_def
      stop_manual_heartbeat_def

lemma discovered_ip_stores:
  assumes "create_soco_try env ip = Returns s" and "soco_is_visible env s = Returns True"
    and "get_speaker_info env s = Returns i" and "new_SonosSpeaker env s i = Returns ()"
    and "soco_uid env s = Returns u"
  shows "discovered (data (snd (discovered_ip env ip w)))
           = AList.update u \<lparr>soco = SoCo ip, info = i\<rparr> (discovered (data w))"
proof -
  have s: "s = SoCo ip" using assms(1) by (rule create_soco_try_handle)
  show ?thesis
    using assms
    by (simp add: discovered_ip_def create_soco_def add_if_visible_def discovered_player_frame
          discovered_player_try_discovered data_emit s)
qed

lemma created_task_has_boot_count:
  assumes "created_tasks (out (snd (async_discovered_player env source ip uid raw model w)))
             = created_tasks (out w) @ [(uid, ip, Some n)]"
  shows "\<exists>c. boot_counts (data (snd (async_discovered_player env source ip uid raw model w))) uid
               = Some c"
  using assms
  by (auto simp: async_discovered_player_def convert_seqnum_def Let_def out_emit data_emit
        created_tasks_append split: if_splits sum.splits option.splits list.splits)

lemma net_down_try: "create_soco_try (net_down u) ip = Raises OSError"
  by (simp add: create_soco_try_def net_down_def net_up_def)

lemma net_info_fails_try:
  "fst (discovered_player_try (net_info_fails u) s w) = Raises SoCoException"
  by (simp add: discovered_player_try_def net_info_fails_def net_up_def)

lemma discovered_ip_speaker_calls_stored:
  assumes "create_soco_try env ip = Returns s" and "soco_is_visible env s = Returns True"
    and "get_speaker_info env s = Returns i"
  shows "speaker_calls (out (snd (discovered_ip env ip w))) = speaker_calls (out w) @ [SoCo ip]"
proof -
  have s: "s = SoCo ip" using assms(1) by (rule create_soco_try_handle)
  show ?thesis
    using assms
    by (simp add: discovered_ip_def create_soco_def add_if_visible_def discovered_player_snd
          discovered_player_try_speaker_calls out_emit speaker_calls_append s
          split: sum.splits)
qed












text \<open>
  C1, as stated, promises a new device record whenever the identifier is not known. With
  an unreachable device none is created: the attempt is logged and skipped.
\<close>

theorem unknown_identifier_without_record:
  "''RINCON_B'' \<notin> set (map fst (discovered (data world_init)))
   \<and> async_create_discovered_player (net_down ''RINCON_B'') ''RINCON_B'' ''10.0.0.7'' None world_init
       = (Returns (),
          world_init\<lparr>out := [NewSoCo ''10.0.0.7'',
                             LogWarning (FailedToConnect DISCOVERED ''10.0.0.7'' OSError)]\<rparr>)
   \<and> discovered (data (snd (async_create_discovered_player (net_down ''RINCON_B'') ''RINCON_B''
         ''10.0.0.7'' None world_init))) = []"
  by (simp add: sonos_defs)

text \<open>
  C1, amended. \<^verbatim>\<open>_async_create_discovered_player\<close> decides in three ways. For an
  identifier without a device record it makes one creation attempt at the event's
  address, which stores a record (under the identifier the device reports) when the
  device answers, is visible and its record can be constructed. For a known identifier
  and a non-zero boot sequence number greater than the stored one, the event is a
  reboot: the boot count is updated, a handle is requested and sent with
  \<^verbatim>\<open>SONOS_REBOOTED\<close>. For a known identifier whose boot sequence number is absent,
  zero, or not greater than the stored one, only \<^verbatim>\<open>SONOS_SEEN\<close> is sent and the
  state is unchanged.
\<close>

theorem discovery_decision:
  "(uid \<notin> set (map fst (discovered (data w))) \<longrightarrow>
      async_create_discovered_player env uid ip b w = discovered_ip env ip w
      \<and> soco_calls (out (snd (async_create_discovered_player env uid ip b w)))
          = soco_calls (out w) @ [ip]
      \<and> (create_soco_try env ip = Returns s \<and> soco_is_visible env s = Returns True
          \<and> get_speaker_info env s = Returns i \<and> new_SonosSpeaker env s i = Returns ()
          \<and> soco_uid env s = Returns u \<longrightarrow>
          map_of (discovered (data (snd (async_create_discovered_player env uid ip b w)))) u
            = Some \<lparr>soco = SoCo ip, info = i\<rparr>))
   \<and> (uid \<in> set (map fst (discovered (data w))) \<and> b = Some n \<and> n \<noteq> 0
        \<and> boot_counts (data w) uid = Some c \<and> c < n \<longrightarrow>
      data (snd (async_create_discovered_player env uid ip b w))
        = (data w)\<lparr>boot_counts := (boot_counts (data w))(uid \<mapsto> n)\<rparr>
      \<and> soco_calls (out (snd (async_create_discovered_player env uid ip b w)))
          = soco_calls (out w) @ [ip]
      \<and> (create_soco_try env ip = Returns s \<longrightarrow>
           out (snd (async_create_discovered_player env uid ip b w))
             = out w @ [NewSoCo ip, DispatcherSend SONOS_REBOOTED uid (Some (SoCo ip))]))
   \<and> (uid \<in> set (map fst (discovered (data w)))
        \<and> (b = None \<or> b = Some 0 \<or> (\<exists>m c. b = Some m \<and> boot_counts (data w) uid = Some c \<and> m \<le> c)) \<longrightarrow>
      async_create_discovered_player env uid ip b w
        = (Returns (), emit (DispatcherSend SONOS_SEEN uid None) w))"
proof (intro conjI impI)
  assume n: "uid \<notin> set (map fst (discovered (data w)))"
  show e: "async_create_discovered_player env uid ip b w = discovered_ip env ip w"
    using n by (rule async_create_unknown)
  show "soco_calls (out (snd (async_create_discovered_player env uid ip b w)))
          = soco_calls (out w) @ [ip]"
    by (simp add: e discovered_ip_frame)
  assume "create_soco_try env ip = Returns s \<and> soco_is_visible env s = Returns True
          \<and> get_speaker_info env s = Returns i \<and> new_SonosSpeaker env s i = Returns ()
          \<and> soco_uid env s = Returns u"
  then show "map_of (discovered (data (snd (async_create_discovered_player env uid ip b w)))) u
            = Some \<lparr>soco = SoCo ip, info = i\<rparr>"
    by (simp add: e discovered_ip_stores update_conv')
next
  assume h: "uid \<in> set (map fst (discovered (data w))) \<and> b = Some n \<and> n \<noteq> 0
        \<and> boot_counts (data w) uid = Some c \<and> c < n"
  let ?w1 = "w\<lparr>data := (data w)\<lparr>boot_counts := (boot_counts (data w))(uid \<mapsto> n)\<rparr>\<rparr>"
  have r: "async_create_discovered_player env uid ip b w =
             (case create_soco env ip REBOOTED ?w1 of
                (Raises ex, w2) \<Rightarrow> (Raises ex, w2)
              | (Returns None, w2) \<Rightarrow> (Returns (), w2)
              | (Returns (Some s), w2) \<Rightarrow>
                  (Returns (), emit (DispatcherSend SONOS_REBOOTED uid (Some s)) w2))"
    using h
    by (simp add: async_create_discovered_player_def truthy_seqnum_def boot_counts_getitem_def)
  show "data (snd (async_create_discovered_player env uid ip b w))
        = (data w)\<lparr>boot_counts := (boot_counts (data w))(uid \<mapsto> n)\<rparr>"
    by (simp add: r case_prod_beta create_soco_data data_emit split: sum.splits option.splits)
  show "soco_calls (out (snd (async_create_discovered_player env uid ip b w)))
          = soco_calls (out w) @ [ip]"
    by (simp add: r case_prod_beta create_soco_out out_emit soco_calls_append
          split: sum.splits option.splits)
  assume t: "create_soco_try env ip = Returns s"
  then have s: "s = SoCo ip" by (rule create_soco_try_handle)
  show "out (snd (async_create_discovered_player env uid ip b w))
             = out w @ [NewSoCo ip, DispatcherSend SONOS_REBOOTED uid (Some (SoCo ip))]"
    by (simp add: r create_soco_def t s out_emit)
next
  assume "uid \<in> set (map fst (discovered (data w)))
        \<and> (b = None \<or> b = Some 0 \<or> (\<exists>m c. b = Some m \<and> boot_counts (data w) uid = Some c \<and> m \<le> c))"
  then show "async_create_discovered_player env uid ip b w
        = (Returns (), emit (DispatcherSend SONOS_SEEN uid None) w)"
    by (auto simp: async_create_discovered_player_def truthy_seqnum_def boot_counts_getitem_def
          send_seen_def)
qed

theorem discovery_decision_witness:
  "''RINCON_B'' \<notin> set (map fst (discovered (data world_init)))
   \<and> create_soco_try (net_up ''RINCON_B'') ''10.0.0.7'' = Returns (SoCo ''10.0.0.7'')
   \<and> soco_is_visible (net_up ''RINCON_B'') (SoCo ''10.0.0.7'') = Returns True
   \<and> get_speaker_info (net_up ''RINCON_B'') (SoCo ''10.0.0.7'') = Returns [(''zone_name'', ''Kitchen'')]
   \<and> new_SonosSpeaker (net_up ''RINCON_B'') (SoCo ''10.0.0.7'') [(''zone_name'', ''Kitchen'')] = Returns ()
   \<and> soco_uid (net_up ''RINCON_B'') (SoCo ''10.0.0.7'') = Returns ''RINCON_B''
   \<and> map_of (discovered (data (snd (async_create_discovered_player (net_up ''RINCON_B'')
         ''RINCON_B'' ''10.0.0.7'' None world_init)))) ''RINCON_B''
       = Some \<lparr>soco = SoCo ''10.0.0.7'', info = [(''zone_name'', ''Kitchen'')]\<rparr>
   \<and> ''RINCON_A'' \<in> set (map fst (discovered (data world_one)))
   \<and> boot_counts (data world_one) ''RINCON_A'' = Some 3 \<and> (3::int) < 4 \<and> (4::int) \<noteq> 0
   \<and> create_soco_try (net_up ''RINCON_A'') ''10.0.0.9'' = Returns (SoCo ''10.0.0.9'')
   \<and> data (snd (async_create_discovered_player (net_up ''RINCON_A'') ''RINCON_A'' ''10.0.0.9''
              (Some 4) world_one))
       = (data world_one)\<lparr>boot_counts := (boot_counts (data world_one))(''RINCON_A'' \<mapsto> 4)\<rparr>
   \<and> out (snd (async_create_discovered_player (net_up ''RINCON_A'') ''RINCON_A'' ''10.0.0.9''
              (Some 4) world_one))
       = [NewSoCo ''10.0.0.9'', DispatcherSend SONOS_REBOOTED ''RINCON_A'' (Some (SoCo ''10.0.0.9''))]
   \<and> (3::int) \<le> 3
   \<and> async_create_discovered_player (net_up ''RINCON_A'') ''RINCON_A'' ''10.0.0.9'' (Some 3) world_one
       = (Returns (), emit (DispatcherSend SONOS_SEEN ''RINCON_A'' None) world_one)"
proof -
  have n: "''RINCON_B'' \<notin> set (map fst (discovered (data world_init)))"
    and k: "''RINCON_A'' \<in> set (map fst (discovered (data world_one)))"
    and c: "boot_counts (data world_one) ''RINCON_A'' = Some 3"
    and o: "out world_one = []"
    by (simp_all add: world_one_def world_init_def SonosData_init_def)
  have tb: "create_soco_try (net_up ''RINCON_B'') ''10.0.0.7'' = Returns (SoCo ''10.0.0.7'')"
    and ta: "create_soco_try (net_up ''RINCON_A'') ''10.0.0.9'' = Returns (SoCo ''10.0.0.9'')"
    by (simp_all add: create_soco_try_def net_up_def)
  have v: "soco_is_visible (net_up ''RINCON_B'') (SoCo ''10.0.0.7'') = Returns True"
    and g: "get_speaker_info (net_up ''RINCON_B'') (SoCo ''10.0.0.7'') = Returns [(''zone_name'', ''Kitchen'')]"
    and p: "new_SonosSpeaker (net_up ''RINCON_B'') (SoCo ''10.0.0.7'') [(''zone_name'', ''Kitchen'')] = Returns ()"
    and u: "soco_uid (net_up ''RINCON_B'') (SoCo ''10.0.0.7'') = Returns ''RINCON_B''"
    by (simp_all add: net_up_def)
  have l: "(3::int) < 4" and z: "(4::int) \<noteq> 0" and e: "(3::int) \<le> 3" by simp_all
  have 1: "map_of (discovered (data (snd (async_create_discovered_player (net_up ''RINCON_B'')
         ''RINCON_B'' ''10.0.0.7'' None world_init)))) ''RINCON_B''
       = Some \<lparr>soco = SoCo ''10.0.0.7'', info = [(''zone_name'', ''Kitchen'')]\<rparr>"
    using discovery_decision [where env = "net_up ''RINCON_B''" and uid = "''RINCON_B''"
        and ip = "''10.0.0.7''" and b = None and w = world_init and s = "SoCo ''10.0.0.7''"
        and i = "[(''zone_name'', ''Kitchen'')]" and u = "''RINCON_B''"] n tb v g p u
    by blast
  note R = discovery_decision [where env = "net_up ''RINCON_A''" and uid = "''RINCON_A''"
        and ip = "''10.0.0.9''" and b = "Some 4" and n = 4 and c = 3 and w = world_one
        and s = "SoCo ''10.0.0.9''"]
  have 2: "data (snd (async_create_discovered_player (net_up ''RINCON_A'') ''RINCON_A'' ''10.0.0.9''
              (Some 4) world_one))
       = (data world_one)\<lparr>boot_counts := (boot_counts (data world_one))(''RINCON_A'' \<mapsto> 4)\<rparr>"
    using R k c by simp
  have 3: "out (snd (async_create_discovered_player (net_up ''RINCON_A'') ''RINCON_A'' ''10.0.0.9''
              (Some 4) world_one))
       = [NewSoCo ''10.0.0.9'', DispatcherSend SONOS_REBOOTED ''RINCON_A'' (Some (SoCo ''10.0.0.9''))]"
    using R k c ta by (simp add: o)
  have 4: "async_create_discovered_player (net_up ''RINCON_A'') ''RINCON_A'' ''10.0.0.9'' (Some 3) world_one
       = (Returns (), emit (DispatcherSend SONOS_SEEN ''RINCON_A'' None) world_one)"
    using discovery_decision [where env = "net_up ''RINCON_A''" and uid = "''RINCON_A''"
        and ip = "''10.0.0.9''" and b = "Some 3" and w = world_one] k c
    by simp
  from n tb v g p u 1 k c l z ta 2 3 e 4 show ?thesis by blast
qed

text \<open>
  The two creation points catch their failures. When an SDK call inside
  \<^verbatim>\<open>_create_soco\<close> raises OSError or SoCoException, the handle has been requested
  once, one warning is logged and \<^verbatim>\<open>None\<close> is returned, so that
  \<^verbatim>\<open>_discovered_ip\<close> returns without a second attempt; when a call inside
  \<^verbatim>\<open>_discovered_player\<close> raises one, one warning is logged, the function returns
  normally and the record's constructor has been called at most once.
\<close>

lemma creation_points_catch:
  assumes "sdk_failure ex"
  shows "(create_soco_try env ip = Raises ex \<longrightarrow>
            create_soco env ip source w
              = (Returns None,
                 w\<lparr>out := out w @ [NewSoCo ip, LogWarning (FailedToConnect source ip ex)]\<rparr>)
            \<and> discovered_ip env ip w
              = (Returns (),
                 w\<lparr>out := out w @ [NewSoCo ip, LogWarning (FailedToConnect DISCOVERED ip ex)]\<rparr>))
       \<and> (fst (discovered_player_try env s w) = Raises ex \<longrightarrow>
            discovered_player env s w
              = (Returns (), emit (LogWarning (FailedToAdd s)) (snd (discovered_player_try env s w)))
            \<and> warnings (out (snd (discovered_player env s w))) = warnings (out w) @ [FailedToAdd s]
            \<and> length (speaker_calls (out (snd (discovered_player env s w))))
                 \<le> length (speaker_calls (out w)) + 1)"
proof (intro conjI impI)
  assume "create_soco_try env ip = Raises ex"
  with assms show "create_soco env ip source w
      = (Returns None, w\<lparr>out := out w @ [NewSoCo ip, LogWarning (FailedToConnect source ip ex)]\<rparr>)"
    by (rule create_soco_caught)
next
  assume "create_soco_try env ip = Raises ex"
  with assms show "discovered_ip env ip w
      = (Returns (), w\<lparr>out := out w @ [NewSoCo ip, LogWarning (FailedToConnect DISCOVERED ip ex)]\<rparr>)"
    by (rule discovered_ip_caught)
next
  assume f: "fst (discovered_player_try env s w) = Raises ex"
  show c: "discovered_player env s w
      = (Returns (), emit (LogWarning (FailedToAdd s)) (snd (discovered_player_try env s w)))"
    using assms f by (rule discovered_player_caught)
  show "warnings (out (snd (discovered_player env s w))) = warnings (out w) @ [FailedToAdd s]"
    by (simp add: c out_emit warnings_append discovered_player_try_frame)
  show "length (speaker_calls (out (snd (discovered_player env s w))))
          \<le> length (speaker_calls (out w)) + 1"
    by (simp add: c out_emit speaker_calls_append discovered_player_try_speaker_calls
          split: sum.splits)
qed

text \<open>
  C3 asks that in every device-creation attempt a failure of the network or of the SDK
  (OSError or SoCoException) is caught, logged as a warning and not propagated. The
  attempt reads \<^verbatim>\<open>soco.is_visible\<close> between its two creation points, outside every
  \<^verbatim>\<open>try\<close>: when the device answers \<^verbatim>\<open>_create_soco\<close> and is lost before that
  read, the SoCoException leaves \<^verbatim>\<open>_discovered_ip\<close>,
  \<^verbatim>\<open>_async_create_discovered_player\<close> and \<^verbatim>\<open>_manual_hosts\<close>; no warning
  is logged, and the manual heartbeat is not scheduled again.
\<close>

theorem visibility_failure_escapes:
  "create_soco_try (net_visibility_fails ''RINCON_B'') ''10.0.0.7'' = Returns (SoCo ''10.0.0.7'')
   \<and> soco_is_visible (net_visibility_fails ''RINCON_B'') (SoCo ''10.0.0.7'') = Raises SoCoException
   \<and> sdk_failure SoCoException
   \<and> discovered_ip (net_visibility_fails ''RINCON_B'') ''10.0.0.7'' world_init
       = (Raises SoCoException, world_init\<lparr>out := [NewSoCo ''10.0.0.7'']\<rparr>)
   \<and> async_create_discovered_player (net_visibility_fails ''RINCON_B'') ''RINCON_B'' ''10.0.0.7''
         None world_init
       = (Raises SoCoException, world_init\<lparr>out := [NewSoCo ''10.0.0.7'']\<rparr>)
   \<and> manual_hosts (net_visibility_fails ''RINCON_B'') [''10.0.0.7''] world_init
       = (Raises SoCoException, world_init\<lparr>out := [NewSoCo ''10.0.0.7'']\<rparr>)
   \<and> warnings (out (snd (async_create_discovered_player (net_visibility_fails ''RINCON_B'')
         ''RINCON_B'' ''10.0.0.7'' None world_init))) = []"
  by (simp add: sonos_defs)

text \<open>
  C4, as stated (a failed creation leaves the state of the manager as it was), fails on
  the reboot path: the boot count is stored before the handle is requested. Here the
  device is known with boot count 3, the event carries 4 and the connection fails: the
  stored count is 4 afterwards.
\<close>

theorem failed_reboot_changes_boot_count:
  "create_soco_try (net_down ''RINCON_A'') ''10.0.0.9'' = Raises OSError
   \<and> boot_counts (data world_one) ''RINCON_A'' = Some 3
   \<and> async_create_discovered_player (net_down ''RINCON_A'') ''RINCON_A'' ''10.0.0.9'' (Some 4) world_one
       = (Returns (),
          \<lparr>data = (data world_one)\<lparr>boot_counts := [''RINCON_A'' \<mapsto> 4]\<rparr>,
           out = [NewSoCo ''10.0.0.9'', LogWarning (FailedToConnect REBOOTED ''10.0.0.9'' OSError)]\<rparr>)
   \<and> boot_counts (data (snd (async_create_discovered_player (net_down ''RINCON_A'') ''RINCON_A''
          ''10.0.0.9'' (Some 4) world_one))) ''RINCON_A'' = Some 4"
  by (simp add: sonos_defs)

text \<open>
  C4, amended. When the creation of the device handle fails (\<^verbatim>\<open>_create_soco\<close>
  catches OSError or SoCoException), the data of the manager is the same after the
  attempt as before it for an identifier that is not yet known and for a configured
  host; on the reboot path only the identifier's boot count differs, which is the
  event's number. When \<^verbatim>\<open>_discovered_player\<close> fails before the record is stored
  (in \<^verbatim>\<open>get_speaker_info\<close> or in the constructor of the record), the data is
  unchanged as well.
\<close>

theorem failed_creation_state:
  assumes "sdk_failure ex"
  shows "(create_soco_try env ip = Raises ex \<and> uid \<notin> set (map fst (discovered (data w))) \<longrightarrow>
            data (snd (async_create_discovered_player env uid ip b w)) = data w)
       \<and> (create_soco_try env ip = Raises ex \<and> uid \<in> set (map fst (discovered (data w)))
            \<and> boot_counts (data w) uid = Some c \<and> c < n \<and> n \<noteq> 0 \<longrightarrow>
            data (snd (async_create_discovered_player env uid ip (Some n) w))
              = (data w)\<lparr>boot_counts := (boot_counts (data w))(uid \<mapsto> n)\<rparr>)
       \<and> (create_soco_try env ip = Raises ex \<and> gethostbyname env host = Returns ip
            \<and> known_uid_of_ip ip (data w) = None \<longrightarrow>
            data (snd (manual_host env host w)) = data w)
       \<and> (get_speaker_info env s = Raises ex
            \<or> (\<exists>i. get_speaker_info env s = Returns i \<and> new_SonosSpeaker env s i = Raises ex) \<longrightarrow>
            data (snd (discovered_player env s w)) = data w)"
proof (intro conjI impI)
  assume "create_soco_try env ip = Raises ex \<and> uid \<notin> set (map fst (discovered (data w)))"
  then show "data (snd (async_create_discovered_player env uid ip b w)) = data w"
    using assms by (simp add: async_create_unknown discovered_ip_caught)
next
  assume "create_soco_try env ip = Raises ex \<and> uid \<in> set (map fst (discovered (data w)))
            \<and> boot_counts (data w) uid = Some c \<and> c < n \<and> n \<noteq> 0"
  then show "data (snd (async_create_discovered_player env uid ip (Some n) w))
              = (data w)\<lparr>boot_counts := (boot_counts (data w))(uid \<mapsto> n)\<rparr>"
    using assms
    by (simp add: async_create_discovered_player_def truthy_seqnum_def boot_counts_getitem_def
          create_soco_caught)
next
  assume "create_soco_try env ip = Raises ex \<and> gethostbyname env host = Returns ip
            \<and> known_uid_of_ip ip (data w) = None"
  then show "data (snd (manual_host env host w)) = data w"
    using assms by (simp add: manual_host_def create_soco_caught add_if_visible_def)
next
  assume "get_speaker_info env s = Raises ex
            \<or> (\<exists>i. get_speaker_info env s = Returns i \<and> new_SonosSpeaker env s i = Raises ex)"
  then show "data (snd (discovered_player env s w)) = data w"
    using assms
    by (auto simp: discovered_player_def discovered_player_try_def data_emit Let_def)
qed

theorem failed_creation_state_witness:
  "sdk_failure OSError \<and> sdk_failure SoCoException
   \<and> create_soco_try (net_down ''RINCON_B'') ''10.0.0.7'' = Raises OSError
   \<and> ''RINCON_B'' \<notin> set (map fst (discovered (data world_one)))
   \<and> data (snd (async_create_discovered_player (net_down ''RINCON_B'') ''RINCON_B'' ''10.0.0.7''
               (Some 4) world_one)) = data world_one
   \<and> ''RINCON_A'' \<in> set (map fst (discovered (data world_one)))
   \<and> boot_counts (data world_one) ''RINCON_A'' = Some 3 \<and> (3::int) < 4 \<and> (4::int) \<noteq> 0
   \<and> data (snd (async_create_discovered_player (net_down ''RINCON_B'') ''RINCON_A'' ''10.0.0.7''
               (Some 4) world_one))
       = (data world_one)\<lparr>boot_counts := (boot_counts (data world_one))(''RINCON_A'' \<mapsto> 4)\<rparr>
   \<and> gethostbyname (net_down ''RINCON_B'') ''10.0.0.7'' = Returns ''10.0.0.7''
   \<and> known_uid_of_ip ''10.0.0.7'' (data world_one) = None
   \<and> data (snd (manual_host (net_down ''RINCON_B'') ''10.0.0.7'' world_one)) = data world_one
   \<and> get_speaker_info (net_info_fails ''RINCON_B'') (SoCo ''10.0.0.7'') = Raises SoCoException
   \<and> data (snd (discovered_player (net_info_fails ''RINCON_B'') (SoCo ''10.0.0.7'') world_one))
       = data world_one"
proof -
  have a: "sdk_failure OSError" and b: "sdk_failure SoCoException"
    by (simp_all add: sdk_failure_def)
  have t: "create_soco_try (net_down ''RINCON_B'') ''10.0.0.7'' = Raises OSError"
    by (rule net_down_try)
  have n: "''RINCON_B'' \<notin> set (map fst (discovered (data world_one)))"
    and k: "''RINCON_A'' \<in> set (map fst (discovered (data world_one)))"
    and c: "boot_counts (data world_one) ''RINCON_A'' = Some 3"
    and g: "gethostbyname (net_down ''RINCON_B'') ''10.0.0.7'' = Returns ''10.0.0.7''"
    and u: "known_uid_of_ip ''10.0.0.7'' (data world_one) = None"
    and i: "get_speaker_info (net_info_fails ''RINCON_B'') (SoCo ''10.0.0.7'') = Raises SoCoException"
    by (simp_all add: world_one_def SonosData_init_def net_down_def net_up_def net_info_fails_def
          known_uid_of_ip_def)
  note A = failed_creation_state [OF a, where env = "net_down ''RINCON_B''" and ip = "''10.0.0.7''"
      and w = world_one and host = "''10.0.0.7''" and n = 4 and c = 3]
  have 1: "data (snd (async_create_discovered_player (net_down ''RINCON_B'') ''RINCON_B'' ''10.0.0.7''
               (Some 4) world_one)) = data world_one"
    using A [where uid = "''RINCON_B''" and b = "Some 4"] t n by blast
  have 2: "data (snd (async_create_discovered_player (net_down ''RINCON_B'') ''RINCON_A'' ''10.0.0.7''
               (Some 4) world_one))
       = (data world_one)\<lparr>boot_counts := (boot_counts (data world_one))(''RINCON_A'' \<mapsto> 4)\<rparr>"
    using A [where uid = "''RINCON_A''"] t k c by simp
  have 3: "data (snd (manual_host (net_down ''RINCON_B'') ''10.0.0.7'' world_one)) = data world_one"
    using A [where uid = "''RINCON_A''"] t g u by blast
  have 4: "data (snd (discovered_player (net_info_fails ''RINCON_B'') (SoCo ''10.0.0.7'') world_one))
       = data world_one"
    using failed_creation_state [OF b, where env = "net_info_fails ''RINCON_B''"
        and s = "SoCo ''10.0.0.7''" and w = world_one] i by blast
  have 5: "(3::int) < 4 \<and> (4::int) \<noteq> 0" by simp
  from a b t n 1 k c 5 2 g u 3 i 4 show ?thesis by blast
qed

text \<open>
  C5. Every operation of the discovery manager, and so every run of operations, keeps
  the two invariants: the device records have pairwise distinct identifiers, and an
  identifier's stored boot sequence number is never removed and never decreases.
\<close>

theorem operations_preserve_invariants:
  assumes "unique_records (data w)"
  shows "unique_records (data (run_ops steps w))
         \<and> boot_counts_le (data w) (data (run_ops steps w))"
  using assms by (simp add: run_ops_unique run_ops_boot_counts)

lemma sample_run_boot_counts:
  "boot_counts (data (run_ops sample_steps world_one)) ''RINCON_A'' = Some 4"
  "map fst (discovered (data (run_ops sample_steps world_one))) = [''RINCON_A'', ''RINCON_B'']"
  by (simp_all add: sample_steps_def world_one_def SonosData_init_def net_up_def
      async_discovered_player_def convert_seqnum_def async_create_discovered_player_def
      DISCOVERY_IGNORED_MODELS_def emit_def truthy_seqnum_def boot_counts_getitem_def
      create_soco_def create_soco_try_def send_seen_def discovered_ip_def add_if_visible_def
      discovered_player_def discovered_player_try_def setup_coordinator_def coord_dict_def
      coord_dict_store_def)

theorem operations_preserve_invariants_witness:
  "unique_records (data world_one)
   \<and> unique_records (data (run_ops sample_steps world_one))
   \<and> boot_counts_le (data world_one) (data (run_ops sample_steps world_one))
   \<and> boot_counts (data world_one) ''RINCON_A'' = Some 3
   \<and> boot_counts (data (run_ops sample_steps world_one)) ''RINCON_A'' = Some 4"
proof -
  have u: "unique_records (data world_one)"
    by (simp add: unique_records_def world_one_def SonosData_init_def)
  have b: "boot_counts (data world_one) ''RINCON_A'' = Some 3"
    by (simp add: world_one_def SonosData_init_def)
  from operations_preserve_invariants [OF u, of sample_steps] u b sample_run_boot_counts(1)
  show ?thesis by blast
qed




text \<open>
  C7, as stated (on a reboot the stored device record is replaced by one built from the
  new handle), fails: the manager requests a new handle and sends it with the
  \<^verbatim>\<open>SONOS_REBOOTED\<close> signal; the record stored for the identifier is the one that
  was there, built from the old handle, and no record is constructed.
\<close>

theorem reboot_keeps_stored_record:
  "''RINCON_A'' \<in> set (map fst (discovered (data world_one)))
   \<and> boot_counts (data world_one) ''RINCON_A'' = Some 3
   \<and> create_soco_try (net_up ''RINCON_A'') ''10.0.0.9'' = Returns (SoCo ''10.0.0.9'')
   \<and> async_create_discovered_player (net_up ''RINCON_A'') ''RINCON_A'' ''10.0.0.9'' (Some 4) world_one
       = (Returns (),
          \<lparr>data = (data world_one)\<lparr>boot_counts := [''RINCON_A'' \<mapsto> 4]\<rparr>,
           out = [NewSoCo ''10.0.0.9'',
                  DispatcherSend SONOS_REBOOTED ''RINCON_A'' (Some (SoCo ''10.0.0.9''))]\<rparr>)
   \<and> map_of (discovered (data (snd (async_create_discovered_player (net_up ''RINCON_A'')
         ''RINCON_A'' ''10.0.0.9'' (Some 4) world_one)))) ''RINCON_A''
       = Some \<lparr>soco = SoCo ''10.0.0.5'', info = [(''zone_name'', ''Kitchen'')]\<rparr>"
  by (simp add: sonos_defs)

text \<open>
  C7, amended. For a discovery event treated as a reboot (known identifier, a non-zero
  boot sequence number greater than the stored one) the manager stores the new boot
  count, requests one handle for the event's address and, when that succeeds, sends
  \<^verbatim>\<open>SONOS_REBOOTED\<close> for the identifier with the new handle; when it fails with a
  caught error only the warning is logged. The device records are left as they were and
  no record is constructed.
\<close>

theorem reboot_event_effects:
  assumes "uid \<in> set (map fst (discovered (data w)))"
    and "boot_counts (data w) uid = Some c" and "c < n" and "n \<noteq> 0"
  shows "data (snd (async_create_discovered_player env uid ip (Some n) w))
           = (data w)\<lparr>boot_counts := (boot_counts (data w))(uid \<mapsto> n)\<rparr>
       \<and> discovered (data (snd (async_create_discovered_player env uid ip (Some n) w)))
           = discovered (data w)
       \<and> speaker_calls (out (snd (async_create_discovered_player env uid ip (Some n) w)))
           = speaker_calls (out w)
       \<and> soco_calls (out (snd (async_create_discovered_player env uid ip (Some n) w)))
           = soco_calls (out w) @ [ip]
       \<and> (create_soco_try env ip = Returns s \<longrightarrow>
            fst (async_create_discovered_player env uid ip (Some n) w) = Returns ()
            \<and> out (snd (async_create_discovered_player env uid ip (Some n) w))
                = out w @ [NewSoCo ip, DispatcherSend SONOS_REBOOTED uid (Some (SoCo ip))])
       \<and> (create_soco_try env ip = Raises ex \<and> sdk_failure ex \<longrightarrow>
            fst (async_create_discovered_player env uid ip (Some n) w) = Returns ()
            \<and> out (snd (async_create_discovered_player env uid ip (Some n) w))
                = out w @ [NewSoCo ip, LogWarning (FailedToConnect REBOOTED ip ex)])"
proof -
  let ?w1 = "w\<lparr>data := (data w)\<lparr>boot_counts := (boot_counts (data w))(uid \<mapsto> n)\<rparr>\<rparr>"
  have r: "async_create_discovered_player env uid ip (Some n) w =
             (case create_soco env ip REBOOTED ?w1 of
                (Raises ex, w2) \<Rightarrow> (Raises ex, w2)
              | (Returns None, w2) \<Rightarrow> (Returns (), w2)
              | (Returns (Some s), w2) \<Rightarrow>
                  (Returns (), emit (DispatcherSend SONOS_REBOOTED uid (Some s)) w2))"
    using assms
    by (simp add: async_create_discovered_player_def truthy_seqnum_def boot_counts_getitem_def)
  have d: "data (snd (async_create_discovered_player env uid ip (Some n) w)) = data ?w1"
    by (simp add: r case_prod_beta create_soco_data data_emit split: sum.splits option.splits)
  have o: "out ?w1 = out w" by simp
  show ?thesis
  proof (intro conjI impI)
    show "data (snd (async_create_discovered_player env uid ip (Some n) w))
           = (data w)\<lparr>boot_counts := (boot_counts (data w))(uid \<mapsto> n)\<rparr>"
      by (simp add: d)
    show "discovered (data (snd (async_create_discovered_player env uid ip (Some n) w)))
           = discovered (data w)"
      by (simp add: d)
    show "speaker_calls (out (snd (async_create_discovered_player env uid ip (Some n) w)))
           = speaker_calls (out w)"
      by (rule async_create_known_frame(6) [OF assms(1)])
    show "soco_calls (out (snd (async_create_discovered_player env uid ip (Some n) w)))
           = soco_calls (out w) @ [ip]"
      by (simp add: r case_prod_beta create_soco_out out_emit soco_calls_append
            split: sum.splits option.splits)
  next
    assume t: "create_soco_try env ip = Returns s"
    then have s: "s = SoCo ip" by (rule create_soco_try_handle)
    show "fst (async_create_discovered_player env uid ip (Some n) w) = Returns ()"
      by (simp add: r create_soco_def t)
    show "out (snd (async_create_discovered_player env uid ip (Some n) w))
                = out w @ [NewSoCo ip, DispatcherSend SONOS_REBOOTED uid (Some (SoCo ip))]"
      by (simp add: r create_soco_def t s out_emit)
  next
    assume t: "create_soco_try env ip = Raises ex \<and> sdk_failure ex"
    show "fst (async_create_discovered_player env uid ip (Some n) w) = Returns ()"
      using t by (simp add: r create_soco_def)
    show "out (snd (async_create_discovered_player env uid ip (Some n) w))
                = out w @ [NewSoCo ip, LogWarning (FailedToConnect REBOOTED ip ex)]"
      using t by (simp add: r create_soco_def out_emit)
  qed
qed

theorem reboot_event_effects_witness:
  "''RINCON_A'' \<in> set (map fst (discovered (data world_one)))
   \<and> boot_counts (data world_one) ''RINCON_A'' = Some 3 \<and> (3::int) < 4 \<and> (4::int) \<noteq> 0
   \<and> create_soco_try (net_up ''RINCON_A'') ''10.0.0.9'' = Returns (SoCo ''10.0.0.9'')
   \<and> data (snd (async_create_discovered_player (net_up ''RINCON_A'') ''RINCON_A'' ''10.0.0.9''
              (Some 4) world_one))
       = (data world_one)\<lparr>boot_counts := (boot_counts (data world_one))(''RINCON_A'' \<mapsto> 4)\<rparr>
   \<and> discovered (data (snd (async_create_discovered_player (net_up ''RINCON_A'') ''RINCON_A''
              ''10.0.0.9'' (Some 4) world_one))) = discovered (data world_one)
   \<and> out (snd (async_create_discovered_player (net_up ''RINCON_A'') ''RINCON_A'' ''10.0.0.9''
              (Some 4) world_one))
       = [NewSoCo ''10.0.0.9'', DispatcherSend SONOS_REBOOTED ''RINCON_A'' (Some (SoCo ''10.0.0.9''))]
   \<and> create_soco_try (net_down ''RINCON_A'') ''10.0.0.9'' = Raises OSError \<and> sdk_failure OSError
   \<and> out (snd (async_create_discovered_player (net_down ''RINCON_A'') ''RINCON_A'' ''10.0.0.9''
              (Some 4) world_one))
       = [NewSoCo ''10.0.0.9'', LogWarning (FailedToConnect REBOOTED ''10.0.0.9'' OSError)]"
proof -
  have k: "''RINCON_A'' \<in> set (map fst (discovered (data world_one)))"
    and c: "boot_counts (data world_one) ''RINCON_A'' = Some 3"
    and o: "out world_one = []"
    by (simp_all add: world_one_def SonosData_init_def)
  have l: "(3::int) < 4" and z: "(4::int) \<noteq> 0" by simp_all
  have t: "create_soco_try (net_up ''RINCON_A'') ''10.0.0.9'' = Returns (SoCo ''10.0.0.9'')"
    by (simp add: create_soco_try_def net_up_def)
  have f: "create_soco_try (net_down ''RINCON_A'') ''10.0.0.9'' = Raises OSError"
    by (rule net_down_try)
  have a: "sdk_failure OSError" by (simp add: sdk_failure_def)
  note U = reboot_event_effects [OF k c l z, where env = "net_up ''RINCON_A''"
      and ip = "''10.0.0.9''" and s = "SoCo ''10.0.0.9''"]
  note D = reboot_event_effects [OF k c l z, where env = "net_down ''RINCON_A''"
      and ip = "''10.0.0.9''" and ex = OSError]
  have 1: "data (snd (async_create_discovered_player (net_up ''RINCON_A'') ''RINCON_A'' ''10.0.0.9''
              (Some 4) world_one))
       = (data world_one)\<lparr>boot_counts := (boot_counts (data world_one))(''RINCON_A'' \<mapsto> 4)\<rparr>"
    using U by blast
  have 2: "discovered (data (snd (async_create_discovered_player (net_up ''RINCON_A'') ''RINCON_A''
              ''10.0.0.9'' (Some 4) world_one))) = discovered (data world_one)"
    using U by blast
  have 3: "out (snd (async_create_discovered_player (net_up ''RINCON_A'') ''RINCON_A'' ''10.0.0.9''
              (Some 4) world_one))
       = [NewSoCo ''10.0.0.9'', DispatcherSend SONOS_REBOOTED ''RINCON_A'' (Some (SoCo ''10.0.0.9''))]"
    using U t by (simp add: o)
  have 4: "out (snd (async_create_discovered_player (net_down ''RINCON_A'') ''RINCON_A'' ''10.0.0.9''
              (Some 4) world_one))
       = [NewSoCo ''10.0.0.9'', LogWarning (FailedToConnect REBOOTED ''10.0.0.9'' OSError)]"
    using D f a by (simp add: o)
  from k c l z t 1 2 3 f a 4 show ?thesis by blast
qed

text \<open>
  C8. When \<^verbatim>\<open>async_discovered_player\<close> creates the task of an event with a boot
  sequence number, the identifier has an entry in the boot-count mapping, and it keeps
  one through every run of operations of the manager: the lookup
  \<^verbatim>\<open>boot_counts[uid]\<close> that the task makes before the comparison does not raise.
\<close>

theorem boot_count_lookup_never_fails:
  assumes "created_tasks (out (snd (async_discovered_player env source ip uid raw model w)))
             = created_tasks (out w) @ [(uid, ip, Some n)]"
  shows "\<exists>c. boot_counts_getitem
               (data (run_ops steps (snd (async_discovered_player env source ip uid raw model w))))
               uid = Returns c"
proof -
  let ?w1 = "snd (async_discovered_player env source ip uid raw model w)"
  obtain c where c: "boot_counts (data ?w1) uid = Some c"
    using created_task_has_boot_count [OF assms] by blast
  have "boot_counts_le (data ?w1) (data (run_ops steps ?w1))"
    by (rule run_ops_boot_counts)
  then obtain c' where "boot_counts (data (run_ops steps ?w1)) uid = Some c'"
    using c by (blast dest: boot_counts_le_dom)
  then show ?thesis
    by (simp add: boot_counts_getitem_def)
qed

theorem boot_count_lookup_never_fails_witness:
  "created_tasks (out (snd (async_discovered_player (net_up ''RINCON_B'') ''SSDP'' ''10.0.0.7''
       ''RINCON_B'' (Some ''4'') None world_one)))
     = created_tasks (out world_one) @ [(''RINCON_B'', ''10.0.0.7'', Some 4)]
   \<and> (\<exists>c. boot_counts_getitem
              (data (run_ops later_steps (snd (async_discovered_player (net_up ''RINCON_B'') ''SSDP''
                 ''10.0.0.7'' ''RINCON_B'' (Some ''4'') None world_one)))) ''RINCON_B'' = Returns c)
   \<and> map fst (discovered (data (run_ops later_steps (snd (async_discovered_player
         (net_up ''RINCON_B'') ''SSDP'' ''10.0.0.7'' ''RINCON_B'' (Some ''4'') None world_one)))))
       = [''RINCON_A'', ''RINCON_B'']"
proof -
  have t: "created_tasks (out (snd (async_discovered_player (net_up ''RINCON_B'') ''SSDP'' ''10.0.0.7''
       ''RINCON_B'' (Some ''4'') None world_one)))
     = created_tasks (out world_one) @ [(''RINCON_B'', ''10.0.0.7'', Some 4)]"
    by (simp add: sonos_defs)
  have d: "map fst (discovered (data (run_ops later_steps (snd (async_discovered_player
         (net_up ''RINCON_B'') ''SSDP'' ''10.0.0.7'' ''RINCON_B'' (Some ''4'') None world_one)))))
       = [''RINCON_A'', ''RINCON_B'']"
    by (simp add: later_steps_def sonos_defs)
  from boot_count_lookup_never_fails [OF t, of later_steps] t d show ?thesis by blast
qed

text \<open>
  C10. A discovery event whose model is in the list of ignored models ("Sonos Boost")
  makes \<^verbatim>\<open>async_discovered_player\<close> return at once: the data of the manager (known
  identifiers, boot counts, device records) is what it was, and no task is created; the
  only effect is the debug record.
\<close>

theorem ignored_model_changes_nothing:
  assumes "m \<in> set DISCOVERY_IGNORED_MODELS"
  shows "async_discovered_player env source ip uid boot_seqnum (Some m) w
           = (Returns (), emit (LogDebug IgnoringDevice) w)
         \<and> data (snd (async_discovered_player env source ip uid boot_seqnum (Some m) w)) = data w
         \<and> created_tasks (out (snd (async_discovered_player env source ip uid boot_seqnum (Some m) w)))
             = created_tasks (out w)"
  using assms by (simp add: async_discovered_player_def data_emit out_emit created_tasks_append)

theorem ignored_model_changes_nothing_witness:
  "''Sonos Boost'' \<in> set DISCOVERY_IGNORED_MODELS
   \<and> async_discovered_player (net_up ''RINCON_B'') ''SSDP'' ''10.0.0.7'' ''RINCON_B'' (Some ''4'')
        (Some ''Sonos Boost'') world_one
       = (Returns (), emit (LogDebug IgnoringDevice) world_one)
   \<and> data (snd (async_discovered_player (net_up ''RINCON_B'') ''SSDP'' ''10.0.0.7'' ''RINCON_B''
        (Some ''4'') (Some ''Sonos Boost'') world_one)) = data world_one
   \<and> created_tasks (out (snd (async_discovered_player (net_up ''RINCON_B'') ''SSDP'' ''10.0.0.7''
        ''RINCON_B'' (Some ''4'') (Some ''Sonos Boost'') world_one))) = created_tasks (out world_one)"
proof -
  have h: "''Sonos Boost'' \<in> set DISCOVERY_IGNORED_MODELS"
    by (simp add: DISCOVERY_IGNORED_MODELS_def)
  show ?thesis
    using h ignored_model_changes_nothing [OF h, where env = "net_up ''RINCON_B''"
        and source = "''SSDP''" and ip = "''10.0.0.7''" and uid = "''RINCON_B''"
        and boot_seqnum = "Some ''4''" and w = world_one]
    by (simp add: data_emit out_emit created_tasks_append)
qed
section \<open>Repeated events for one identifier\<close>

text \<open>
  The bodies of two tasks run one after the other, since each runs with
  \<^verbatim>\<open>discovery_lock\<close> held (the lock and the scheduling of tasks belong to asyncio
  and are not part of this model). When the first task for an identifier stored its
  record (the device answered, was visible and reported the identifier of the event), a
  later task for the same identifier, at any address and against any network, constructs
  no record and leaves the records as they are: the device is constructed once.
\<close>

lemma second_event_constructs_nothing:
  assumes "uid \<notin> set (map fst (discovered (data w)))"
    and "create_soco_try env ip = Returns s" and "soco_is_visible env s = Returns True"
    and "get_speaker_info env s = Returns i" and "new_SonosSpeaker env s i = Returns ()"
    and "soco_uid env s = Returns uid"
  shows "uid \<in> set (map fst (discovered (data (snd (async_create_discovered_player env uid ip b w)))))
       \<and> speaker_calls (out (snd (async_create_discovered_player env uid ip b w)))
           = speaker_calls (out w) @ [SoCo ip]
       \<and> speaker_calls (out (snd (async_create_discovered_player env' uid ip' b'
            (snd (async_create_discovered_player env uid ip b w)))))
           = speaker_calls (out w) @ [SoCo ip]
       \<and> discovered (data (snd (async_create_discovered_player env' uid ip' b'
            (snd (async_create_discovered_player env uid ip b w)))))
           = discovered (data (snd (async_create_discovered_player env uid ip b w)))"
proof -
  let ?w1 = "snd (async_create_discovered_player env uid ip b w)"
  have e: "async_create_discovered_player env uid ip b w = discovered_ip env ip w"
    using assms(1) by (rule async_create_unknown)
  have d: "discovered (data ?w1) = AList.update uid \<lparr>soco = SoCo ip, info = i\<rparr> (discovered (data w))"
    by (simp add: e discovered_ip_stores [OF assms(2-6)])
  have k: "uid \<in> set (map fst (discovered (data ?w1)))"
    by (simp add: d dom_update)
  have c: "speaker_calls (out ?w1) = speaker_calls (out w) @ [SoCo ip]"
    by (simp add: e discovered_ip_speaker_calls_stored [OF assms(2-4)])
  show ?thesis
    using k c async_create_known_frame(1,6) [OF k, of env' ip' b'] by simp
qed

section \<open>Properties of the MySensors sensor entity\<close>

lemmas mysensors_defs = sample_version_ge_def sample_const_def sample_sensor_def
  well_formed_entity_def custom_unit_def table_unit_def SENSORS_def

text \<open>
  C9. For every well-formed sensor entity the property returns, and the unit of
  measurement follows the precedence: the custom unit, if the protocol version compares
  as at least 1.5 and the entity has one; else, for the value type \<^verbatim>\<open>V_TEMP\<close>,
  Celsius if the platform is metric and Fahrenheit if not; else the unit of the static
  table, which is \<open>None\<close> for a value type without a row.
\<close>

theorem unit_of_measurement_precedence:
  assumes "well_formed_entity version_ge e"
  shows "unit_of_measurement version_ge e =
           Returns (case custom_unit version_ge e of
                      Some u \<Rightarrow> Some (Str u)
                    | None \<Rightarrow>
                        if value_type e = V_TEMP (const e)
                        then (if is_metric e then Some (Const TEMP_CELSIUS)
                              else Some (Const TEMP_FAHRENHEIT))
                        else table_unit e)
         \<and> (custom_unit version_ge e = None \<and> value_type e \<noteq> V_TEMP (const e)
              \<and> SetReq_name (const e) (value_type e) = Some name \<and> map_of SENSORS name = None \<longrightarrow>
              unit_of_measurement version_ge e = Returns None)"
  using assms
  by (auto simp: well_formed_entity_def unit_of_measurement_def unit_after_custom_def
        custom_unit_def table_unit_def get_sensor_type_def
        split: option.splits sensor_entry.splits prod.splits)

text \<open>
  An entity of a gateway whose version the library cannot order against 1.5 is not well
  formed: there the comparison raises and the property raises with it.
\<close>

lemma unit_of_measurement_uncomparable_version:
  "unit_of_measurement sample_version_ge (sample_sensor ''1.5dev'' 1 7 [1 \<mapsto> ''55''] True)
     = Raises AwesomeVersionCompare
   \<and> \<not> well_formed_entity sample_version_ge (sample_sensor ''1.5dev'' 1 7 [1 \<mapsto> ''55''] True)"
  by (simp add: unit_of_measurement_def mysensors_defs)

theorem unit_of_measurement_precedence_witness:
  "well_formed_entity sample_version_ge (sample_sensor ''2.3'' 37 33 [37 \<mapsto> ''41'', 43 \<mapsto> ''ppm''] True)
   \<and> unit_of_measurement sample_version_ge
        (sample_sensor ''2.3'' 37 33 [37 \<mapsto> ''41'', 43 \<mapsto> ''ppm''] True) = Returns (Some (Str ''ppm''))
   \<and> well_formed_entity sample_version_ge (sample_sensor ''1.4'' 0 6 [0 \<mapsto> ''21.5'', 43 \<mapsto> ''K''] True)
   \<and> unit_of_measurement sample_version_ge
        (sample_sensor ''1.4'' 0 6 [0 \<mapsto> ''21.5'', 43 \<mapsto> ''K''] True) = Returns (Some (Const TEMP_CELSIUS))
   \<and> well_formed_entity sample_version_ge (sample_sensor ''2.3'' 0 6 [0 \<mapsto> ''70.7''] False)
   \<and> unit_of_measurement sample_version_ge
        (sample_sensor ''2.3'' 0 6 [0 \<mapsto> ''70.7''] False) = Returns (Some (Const TEMP_FAHRENHEIT))
   \<and> well_formed_entity sample_version_ge (sample_sensor ''2.3'' 1 7 [1 \<mapsto> ''55''] True)
   \<and> unit_of_measurement sample_version_ge
        (sample_sensor ''2.3'' 1 7 [1 \<mapsto> ''55''] True) = Returns (Some (Const PERCENTAGE))
   \<and> well_formed_entity sample_version_ge (sample_sensor ''2.3'' 37 33 [37 \<mapsto> ''41''] True)
   \<and> unit_of_measurement sample_version_ge
        (sample_sensor ''2.3'' 37 33 [37 \<mapsto> ''41''] True) = Returns (Some (Const SOUND_PRESSURE_DB))
   \<and> well_formed_entity sample_version_ge (sample_sensor ''2.3'' 24 6 [24 \<mapsto> ''x''] True)
   \<and> unit_of_measurement sample_version_ge
        (sample_sensor ''2.3'' 24 6 [24 \<mapsto> ''x''] True) = Returns None"
proof -
  have w1: "well_formed_entity sample_version_ge (sample_sensor ''2.3'' 37 33 [37 \<mapsto> ''41'', 43 \<mapsto> ''ppm''] True)"
    and w2: "well_formed_entity sample_version_ge (sample_sensor ''1.4'' 0 6 [0 \<mapsto> ''21.5'', 43 \<mapsto> ''K''] True)"
    and w3: "well_formed_entity sample_version_ge (sample_sensor ''2.3'' 0 6 [0 \<mapsto> ''70.7''] False)"
    and w4: "well_formed_entity sample_version_ge (sample_sensor ''2.3'' 1 7 [1 \<mapsto> ''55''] True)"
    and w5: "well_formed_entity sample_version_ge (sample_sensor ''2.3'' 37 33 [37 \<mapsto> ''41''] True)"
    and w6: "well_formed_entity sample_version_ge (sample_sensor ''2.3'' 24 6 [24 \<mapsto> ''x''] True)"
    by (auto simp add: mysensors_defs)
  have 1: "unit_of_measurement sample_version_ge
        (sample_sensor ''2.3'' 37 33 [37 \<mapsto> ''41'', 43 \<mapsto> ''ppm''] True) = Returns (Some (Str ''ppm''))"
    using unit_of_measurement_precedence [OF w1] by (simp add: mysensors_defs)
  have 2: "unit_of_measurement sample_version_ge
        (sample_sensor ''1.4'' 0 6 [0 \<mapsto> ''21.5'', 43 \<mapsto> ''K''] True) = Returns (Some (Const TEMP_CELSIUS))"
    using unit_of_measurement_precedence [OF w2] by (simp add: mysensors_defs)
  have 3: "unit_of_measurement sample_version_ge
        (sample_sensor ''2.3'' 0 6 [0 \<mapsto> ''70.7''] False) = Returns (Some (Const TEMP_FAHRENHEIT))"
    using unit_of_measurement_precedence [OF w3] by (simp add: mysensors_defs)
  have 4: "unit_of_measurement sample_version_ge
        (sample_sensor ''2.3'' 1 7 [1 \<mapsto> ''55''] True) = Returns (Some (Const PERCENTAGE))"
    using unit_of_measurement_precedence [OF w4] by (simp add: mysensors_defs)
  have 5: "unit_of_measurement sample_version_ge
        (sample_sensor ''2.3'' 37 33 [37 \<mapsto> ''41''] True) = Returns (Some (Const SOUND_PRESSURE_DB))"
    using unit_of_measurement_precedence [OF w5] by (simp add: mysensors_defs)
  have 6: "unit_of_measurement sample_version_ge
        (sample_sensor ''2.3'' 24 6 [24 \<mapsto> ''x''] True) = Returns None"
    using unit_of_measurement_precedence [OF w6] by (simp add: mysensors_defs)
  from w1 1 w2 2 w3 3 w4 4 w5 5 w6 6 show ?thesis by blast
qed


end
